theory Spec2Isabelle
  imports Main "HOL-Library.Sublist" "HOL-Library.Multiset"
begin

section \<open>Values and faults of the interpreter\<close>

text \<open>
  The catalog answers with a JSON document, which \<^verbatim>\<open>response.json()\<close> turns into
  Python values: \<^verbatim>\<open>None\<close>, booleans, integers, strings, lists and dicts. A dict lists
  its entries in insertion order, with distinct keys. Strings are lists of characters
  (code points below 256). Numbers with a fraction or an exponent (Python floats) are
  not part of the model: every number the queries of this program ask for is a GraphQL
  \<^verbatim>\<open>Int\<close>.
\<close>

datatype json =
    JNull
  | JBool bool
  | JInt int
  | JStr string
  | JList "json list"
  | JObj "(string \<times> json) list"

text \<open>
  The exceptions the code can raise, as values. \<open>NotFound\<close> is the exception of
  \<^verbatim>\<open>abort(404)\<close>.
\<close>

datatype error = KeyError | IndexError | TypeError | AttributeError | ValueError | NotFound

definition bindE :: "error + 'a \<Rightarrow> ('a \<Rightarrow> error + 'b) \<Rightarrow> error + 'b" where
  "bindE m f = (case m of Inl e \<Rightarrow> Inl e | Inr v \<Rightarrow> f v)"

text \<open>\<^verbatim>\<open>bool(x)\<close>: the truth value an \<^verbatim>\<open>if\<close> gives a value.\<close>

fun truthy :: "json \<Rightarrow> bool" where
  "truthy JNull = False"
| "truthy (JBool b) = b"
| "truthy (JInt i) = (i \<noteq> 0)"
| "truthy (JStr s) = (s \<noteq> [])"
| "truthy (JList xs) = (xs \<noteq> [])"
| "truthy (JObj kvs) = (kvs \<noteq> [])"

text \<open>
  \<^verbatim>\<open>x[k]\<close> for a string key \<open>k\<close>: a dict looks the key up, a list and a string want
  an integer index, the other values cannot be subscripted.
\<close>

fun getitem :: "json \<Rightarrow> string \<Rightarrow> error + json" where
  "getitem (JObj kvs) k = (case map_of kvs k of None \<Rightarrow> Inl KeyError | Some v \<Rightarrow> Inr v)"
| "getitem _ k = Inl TypeError"

text \<open>
  \<^verbatim>\<open>x[0]\<close>: the first element of a list, the first character of a string; a dict of a
  JSON document has string keys only, so the key \<open>0\<close> is missing.
\<close>

fun getitem0 :: "json \<Rightarrow> error + json" where
  "getitem0 (JList []) = Inl IndexError"
| "getitem0 (JList (x # xs)) = Inr x"
| "getitem0 (JStr []) = Inl IndexError"
| "getitem0 (JStr (c # cs)) = Inr (JStr [c])"
| "getitem0 (JObj kvs) = Inl KeyError"
| "getitem0 _ = Inl TypeError"

text \<open>\<^verbatim>\<open>x.get(k, d)\<close>: only a dict has the method.\<close>

fun get_default :: "json \<Rightarrow> string \<Rightarrow> json \<Rightarrow> error + json" where
  "get_default (JObj kvs) k d = (case map_of kvs k of None \<Rightarrow> Inr d | Some v \<Rightarrow> Inr v)"
| "get_default _ k d = Inl AttributeError"

text \<open>
  \<^verbatim>\<open>k in x\<close> for a string \<open>k\<close>: a key of a dict, an element of a list, a substring
  of a string; the other values are not iterable.
\<close>

fun contains :: "json \<Rightarrow> string \<Rightarrow> error + bool" where
  "contains (JObj kvs) k = Inr (k \<in> set (map fst kvs))"
| "contains (JList xs) k = Inr (JStr k \<in> set xs)"
| "contains (JStr s) k = Inr (sublist k s)"
| "contains _ k = Inl TypeError"

text \<open>
  The elements a \<^verbatim>\<open>for\<close> loop visits: those of a list, the keys of a dict, the
  characters of a string.
\<close>

fun iter :: "json \<Rightarrow> error + json list" where
  "iter (JList xs) = Inr xs"
| "iter (JObj kvs) = Inr (map (\<lambda>kv. JStr (fst kv)) kvs)"
| "iter (JStr s) = Inr (map (\<lambda>c. JStr [c]) s)"
| "iter _ = Inl TypeError"

text \<open>\<^verbatim>\<open>x < 0\<close>: integers compare, \<^verbatim>\<open>True\<close> and \<^verbatim>\<open>False\<close> count as 1 and 0.\<close>

fun lt0 :: "json \<Rightarrow> error + bool" where
  "lt0 (JInt i) = Inr (i < 0)"
| "lt0 (JBool b) = Inr False"
| "lt0 _ = Inl TypeError"

text \<open>\<^verbatim>\<open>a - x\<close> for a Python integer \<open>a\<close>.\<close>

fun int_sub :: "int \<Rightarrow> json \<Rightarrow> error + int" where
  "int_sub a (JInt i) = Inr (a - i)"
| "int_sub a (JBool b) = Inr (a - (if b then 1 else 0))"
| "int_sub a _ = Inl TypeError"

subsection \<open>\<^verbatim>\<open>int(x)\<close>\<close>

text \<open>
  On a string, \<^verbatim>\<open>int\<close> skips white space on both sides, reads one optional sign and
  then decimal digits, where single underscores may stand between two digits. The white
  space it skips is tab, line feed, vertical tab, form feed, carriage return and space
  and, of the code points from 128 on, next line (133) and no-break space (160); the
  separators 28 to 31 are not skipped.
\<close>

definition isspace :: "char \<Rightarrow> bool" where
  "isspace c = (of_char c \<in> {9, 10, 11, 12, 13, 32, 133, 160 :: nat})"

definition isdigit :: "char \<Rightarrow> bool" where
  "isdigit c = (48 \<le> (of_char c :: nat) \<and> (of_char c :: nat) \<le> 57)"

definition digit_value :: "char \<Rightarrow> nat" where
  "digit_value c = of_char c - 48"

definition strip :: "string \<Rightarrow> string" where
  "strip s = rev (dropWhile isspace (rev (dropWhile isspace s)))"

fun digits :: "nat \<Rightarrow> string \<Rightarrow> nat option" where
  "digits acc [] = Some acc"
| "digits acc (c # cs) =
     (if isdigit c then digits (acc * 10 + digit_value c) cs
      else if c = CHR ''_'' \<and> cs \<noteq> [] \<and> isdigit (hd cs) then digits acc cs
      else None)"

text \<open>
  The interpreter refuses a string of too many digits with the same \<^verbatim>\<open>ValueError\<close>:
  when the digits (underscores not counted) are more than 640 and more than the limit
  \<^verbatim>\<open>sys.get_int_max_str_digits()\<close>, unless that limit is 0. The limit is 4300 by
  default, another number from 640 on or 0 when \<^verbatim>\<open>PYTHONINTMAXSTRDIGITS\<close> sets it;
  an interpreter from before the limit behaves as one with the limit 0.
\<close>

definition too_many_digits :: "nat \<Rightarrow> string \<Rightarrow> bool" where
  "too_many_digits limit s =
     (640 < length (filter isdigit s) \<and> 0 < limit \<and> limit < length (filter isdigit s))"

definition unsigned :: "nat \<Rightarrow> string \<Rightarrow> nat option" where
  "unsigned limit s =
     (case s of
        [] \<Rightarrow> None
      | c # cs \<Rightarrow> if isdigit c \<and> \<not> too_many_digits limit s then digits 0 s else None)"

definition int_of_string :: "nat \<Rightarrow> string \<Rightarrow> int option" where
  "int_of_string limit s =
     (case strip s of
        [] \<Rightarrow> None
      | c # cs \<Rightarrow>
          if c = CHR ''-'' then map_option (\<lambda>n. - int n) (unsigned limit cs)
          else if c = CHR ''+'' then map_option int (unsigned limit cs)
          else map_option int (unsigned limit (c # cs)))"

fun py_int :: "nat \<Rightarrow> json \<Rightarrow> error + int" where
  "py_int limit (JStr s) =
     (case int_of_string limit s of None \<Rightarrow> Inl ValueError | Some i \<Rightarrow> Inr i)"
| "py_int limit (JInt i) = Inr i"
| "py_int limit (JBool b) = Inr (if b then 1 else 0)"
| "py_int limit _ = Inl TypeError"

text \<open>\<^verbatim>\<open>sep.join(xs)\<close>.\<close>

fun join :: "string \<Rightarrow> string list \<Rightarrow> string" where
  "join sep [] = []"
| "join sep [x] = x"
| "join sep (x # y # ys) = x @ sep @ join sep (y # ys)"

text \<open>
  \<^verbatim>\<open>sorted(xs, key=f, reverse=True)\<close>: the interpreter reverses the list, sorts it
  stably in ascending order of the keys, and reverses the result.
\<close>

definition sorted_reverse :: "('a \<Rightarrow> int) \<Rightarrow> 'a list \<Rightarrow> 'a list" where
  "sorted_reverse f xs = rev (sort_key f (rev xs))"

section \<open>The application\<close>

subsection \<open>Configuration and the category table\<close>

text \<open>
  Of the configuration read from the environment, the two names of the threshold
  metafield enter the query text; the store's address, the API version and the access
  token are used by the transport only. The environment also fixes the interpreter's
  limit on the digits that \<^verbatim>\<open>int\<close> converts.
\<close>

record config =
  METAFIELD_NAMESPACE :: string
  METAFIELD_KEY :: string
  int_max_str_digits :: nat

record category =
  tag :: string
  title :: string

text \<open>The dict \<^verbatim>\<open>CATEGORIES\<close>, its entries in the order of the source.\<close>

definition CATEGORIES :: "(string \<times> category) list" where
  "CATEGORIES =
     [(''simple'', \<lparr>tag = ''HJMQS'', title = ''Simple''\<rparr>),
      (''2-button'', \<lparr>tag = ''HJMQ2B'', title = ''2 Button''\<rparr>),
      (''7-button'', \<lparr>tag = ''HJMQ7B'', title = ''7 Button''\<rparr>),
      (''quilt'', \<lparr>tag = ''HJMQQ'', title = ''Quilt''\<rparr>)]"

subsection \<open>The catalog client\<close>

text \<open>
  What the remote API does with a query is not code of this program: \<open>catalog\<close>
  gives, for each query text, either the decoded JSON body of a successful response or
  the failure that \<^verbatim>\<open>requests\<close> raises (a connection error, a status of 4xx or
  5xx, a body that is no JSON document). \<open>sent\<close> records the queries posted so
  far.
\<close>

datatype reply = RequestException | Body json

record world =
  catalog :: "string \<Rightarrow> reply"
  sent :: "string list"

text \<open>
  \<^verbatim>\<open>run_graphql_query\<close> posts the query and returns the body, or \<^verbatim>\<open>None\<close> when
  the request failed (the message it prints is not modelled).
\<close>

definition run_graphql_query :: "string \<Rightarrow> world \<Rightarrow> json \<times> world" where
  "run_graphql_query query w =
     (case catalog w query of RequestException \<Rightarrow> JNull | Body j \<Rightarrow> j,
      w\<lparr>sent := sent w @ [query]\<rparr>)"

subsection \<open>Normalizing the product edges\<close>

text \<open>The dict \<^verbatim>\<open>product_data\<close> that \<^verbatim>\<open>process_product_edges\<close> builds for an edge.\<close>

record product_data =
  title :: json
  image_url :: json
  current_qty :: json
  threshold :: int

text \<open>\<^verbatim>\<open>node['variants']['edges'][0]['node']['inventoryQuantity']\<close>\<close>

definition first_inventoryQuantity :: "json \<Rightarrow> error + json" where
  "first_inventoryQuantity node =
     bindE (getitem node ''variants'') (\<lambda>variants.
     bindE (getitem variants ''edges'') (\<lambda>edges.
     bindE (getitem0 edges) (\<lambda>first.
     bindE (getitem first ''node'') (\<lambda>variant.
     getitem variant ''inventoryQuantity''))))"

text \<open>\<^verbatim>\<open>node['variants']['edges']\<close>\<close>

definition variant_edges :: "json \<Rightarrow> error + json" where
  "variant_edges node =
     bindE (getitem node ''variants'') (\<lambda>variants. getitem variants ''edges'')"

text \<open>\<^verbatim>\<open>node['featuredImage']['url'] if node['featuredImage'] else None\<close>\<close>

definition featured_image_url :: "json \<Rightarrow> error + json" where
  "featured_image_url node =
     bindE (getitem node ''featuredImage'') (\<lambda>featuredImage.
     if truthy featuredImage then getitem featuredImage ''url'' else Inr JNull)"

text \<open>The body of the loop of \<^verbatim>\<open>process_product_edges\<close>, for one edge.\<close>

definition process_edge :: "config \<Rightarrow> json \<Rightarrow> error + product_data" where
  "process_edge cfg edge =
     bindE (getitem edge ''node'') (\<lambda>node.
     bindE (variant_edges node) (\<lambda>edges.
     bindE (if truthy edges then first_inventoryQuantity node else Inr (JInt 0)) (\<lambda>current_qty.
     bindE (getitem node ''metafield'') (\<lambda>metafield.
     bindE (if truthy metafield
            then bindE (getitem metafield ''value'') (py_int (int_max_str_digits cfg))
            else Inr 0)
       (\<lambda>threshold.
     bindE (getitem node ''title'') (\<lambda>title.
     bindE (featured_image_url node) (\<lambda>image_url.
     Inr \<lparr>title = title, image_url = image_url, current_qty = current_qty,
          threshold = threshold\<rparr>)))))))"

fun process_loop ::
  "config \<Rightarrow> json list \<Rightarrow> product_data list \<Rightarrow> error + product_data list" where
  "process_loop cfg [] processed_products = Inr processed_products"
| "process_loop cfg (edge # edges) processed_products =
     (case process_edge cfg edge of
        Inl e \<Rightarrow> Inl e
      | Inr product_data \<Rightarrow> process_loop cfg edges (processed_products @ [product_data]))"

definition process_product_edges :: "config \<Rightarrow> json \<Rightarrow> error + product_data list" where
  "process_product_edges cfg edges =
     (if \<not> truthy edges then Inr []
      else bindE (iter edges) (\<lambda>es. process_loop cfg es []))"

subsection \<open>The pages\<close>

text \<open>
  What a view hands to \<^verbatim>\<open>render_template\<close>: the template's name, the products and
  the page title. The HTML the template makes of them is not modelled.
\<close>

record 'p page =
  template :: string
  products :: "'p list"
  page_title :: string

text \<open>The apostrophe that delimits a tag in the filter of a query.\<close>

definition apostrophe :: string where
  "apostrophe = [CHR 0x27]"

subsection \<open>The view \<^verbatim>\<open>show_urgent\<close>\<close>

text \<open>The dict \<^verbatim>\<open>product_data\<close> of \<^verbatim>\<open>show_urgent\<close>: it has no threshold.\<close>

record urgent_product =
  title :: json
  image_url :: json
  current_qty :: json
  needed_qty :: int

definition all_tags :: "string list" where
  "all_tags = map (\<lambda>cat. tag (snd cat)) CATEGORIES"

definition tag_query_string :: string where
  "tag_query_string = join '' OR '' (map (\<lambda>tag. ''tag:'' @ apostrophe @ tag @ apostrophe) all_tags)"

definition urgent_query :: string where
  "urgent_query = join [CHR 0x0A]
     ['''',
      ''    {'',
      ''      products(first: 250, query: \"('' @ tag_query_string @ '')\") {'',
      ''        edges {'',
      ''          node {'',
      ''            id'',
      ''            title'',
      ''            featuredImage {'',
      ''              url'',
      ''            }'',
      ''            variants(first: 1) {'',
      ''              edges {'',
      ''                node {'',
      ''                  inventoryQuantity'',
      ''                }'',
      ''              }'',
      ''            }'',
      ''          }'',
      ''        }'',
      ''      }'',
      ''    }'',
      ''    '']"

text \<open>\<^verbatim>\<open>data.get('data', {}).get('products', {}).get('edges', [])\<close>\<close>

definition product_edges_of :: "json \<Rightarrow> error + json" where
  "product_edges_of data =
     bindE (get_default data ''data'' (JObj [])) (\<lambda>d.
     bindE (get_default d ''products'' (JObj [])) (\<lambda>ps.
     get_default ps ''edges'' (JList [])))"

text \<open>
  The body of the loop of \<^verbatim>\<open>show_urgent\<close>, for one edge: the product it appends, if
  it appends one.
\<close>

definition urgent_edge :: "json \<Rightarrow> error + urgent_product option" where
  "urgent_edge edge =
     bindE (getitem edge ''node'') (\<lambda>node.
     bindE (variant_edges node) (\<lambda>edges.
     if truthy edges then
       bindE (first_inventoryQuantity node) (\<lambda>current_qty.
       bindE (lt0 current_qty) (\<lambda>negative.
       if negative then
         bindE (getitem node ''title'') (\<lambda>title.
         bindE (featured_image_url node) (\<lambda>image_url.
         bindE (int_sub 0 current_qty) (\<lambda>needed_qty.
         Inr (Some \<lparr>title = title, image_url = image_url, current_qty = current_qty,
                    needed_qty = needed_qty\<rparr>))))
       else Inr None))
     else Inr None))"

fun urgent_loop :: "json list \<Rightarrow> urgent_product list \<Rightarrow> error + urgent_product list" where
  "urgent_loop [] products_to_display = Inr products_to_display"
| "urgent_loop (edge # edges) products_to_display =
     (case urgent_edge edge of
        Inl e \<Rightarrow> Inl e
      | Inr None \<Rightarrow> urgent_loop edges products_to_display
      | Inr (Some product_data) \<Rightarrow> urgent_loop edges (products_to_display @ [product_data]))"

text \<open>
  The view after the query has returned. The condition \<^verbatim>\<open>data is None or 'errors' in data\<close>
  does not look into \<^verbatim>\<open>None\<close>; the branch under it evaluates
  \<^verbatim>\<open>data.get('errors')\<close> for the message it prints.
\<close>

definition urgent_page :: "json \<Rightarrow> error + urgent_product page" where
  "urgent_page data =
     bindE (if data = JNull then Inr True else contains data ''errors'') (\<lambda>failed.
     if failed then
       bindE (get_default data ''errors'' JNull) (\<lambda>errors.
       Inr \<lparr>template = ''urgent_page.html'', products = [], page_title = ''Urgent''\<rparr>)
     else
       bindE (product_edges_of data) (\<lambda>product_edges.
       bindE (iter product_edges) (\<lambda>edges.
       bindE (urgent_loop edges []) (\<lambda>products_to_display.
       Inr \<lparr>template = ''urgent_page.html'',
            products = sorted_reverse urgent_product.needed_qty products_to_display,
            page_title = ''Urgent''\<rparr>))))"

definition show_urgent :: "world \<Rightarrow> (error + urgent_product page) \<times> world" where
  "show_urgent w = (case run_graphql_query urgent_query w of (data, w') \<Rightarrow> (urgent_page data, w'))"

subsection \<open>The view \<^verbatim>\<open>show_category\<close>\<close>

text \<open>A product of the category page: the normalized record with \<^verbatim>\<open>needed_qty\<close> added.\<close>

record product = product_data +
  needed_qty :: int

definition category_query :: "config \<Rightarrow> string \<Rightarrow> string" where
  "category_query cfg tag_name = join [CHR 0x0A]
     ['''',
      ''    {'',
      ''      products(first: 250, query: \"tag:'' @ apostrophe @ tag_name @ apostrophe @ ''\") {'',
      ''        edges {'',
      ''          node {'',
      ''            id'',
      ''            title'',
      ''            featuredImage { url }'',
      ''            variants(first: 1) {'',
      ''              edges { node { inventoryQuantity } }'',
      ''            }'',
      ''            metafield(namespace: \"'' @ METAFIELD_NAMESPACE cfg @ ''\", key: \"''
        @ METAFIELD_KEY cfg @ ''\") {'',
      ''              value'',
      ''            }'',
      ''          }'',
      ''        }'',
      ''      }'',
      ''    }'',
      ''    '']"

text \<open>The body of the loop of \<^verbatim>\<open>show_category\<close>, for one normalized product.\<close>

definition category_product :: "product_data \<Rightarrow> error + product option" where
  "category_product p =
     bindE (int_sub (threshold p) (product_data.current_qty p)) (\<lambda>needed_qty.
     if needed_qty > 0 then Inr (Some (product_data.extend p (product.fields needed_qty)))
     else Inr None)"

fun category_loop :: "product_data list \<Rightarrow> product list \<Rightarrow> error + product list" where
  "category_loop [] products_to_display = Inr products_to_display"
| "category_loop (p # all_products) products_to_display =
     (case category_product p of
        Inl e \<Rightarrow> Inl e
      | Inr None \<Rightarrow> category_loop all_products products_to_display
      | Inr (Some product) \<Rightarrow> category_loop all_products (products_to_display @ [product]))"

definition category_page :: "config \<Rightarrow> category \<Rightarrow> json \<Rightarrow> error + product page" where
  "category_page cfg cat data =
     (if data = JNull then
        Inr \<lparr>template = ''category_page.html'', products = [], page_title = category.title cat\<rparr>
      else
        bindE (contains data ''errors'') (\<lambda>failed.
        if failed then
          bindE (get_default data ''errors'' JNull) (\<lambda>errors.
          Inr \<lparr>template = ''category_page.html'', products = [],
               page_title = category.title cat\<rparr>)
        else
          bindE (product_edges_of data) (\<lambda>product_edges.
          bindE (process_product_edges cfg product_edges) (\<lambda>all_products.
          bindE (category_loop all_products []) (\<lambda>products_to_display.
          Inr \<lparr>template = ''category_page.html'',
               products = sorted_reverse product.needed_qty products_to_display,
               page_title = category.title cat\<rparr>)))))"

definition show_category :: "config \<Rightarrow> string \<Rightarrow> world \<Rightarrow> (error + product page) \<times> world" where
  "show_category cfg category_slug w =
     (case map_of CATEGORIES category_slug of
        None \<Rightarrow> (Inl NotFound, w)
      | Some cat \<Rightarrow>
          (case run_graphql_query (category_query cfg (tag cat)) w of
             (data, w') \<Rightarrow> (category_page cfg cat data, w')))"

section \<open>Catalog responses of the documented shape\<close>

text \<open>
  What the catalog holds for a product, as far as the queries project it: identifier,
  title, the URL of the featured image if there is one, the inventory quantities of the
  variants the response lists (none, or the first ones), and the value of the threshold
  metafield if the product has one.
\<close>

record raw_product =
  raw_id :: string
  raw_title :: string
  raw_image :: "string option"
  raw_quantities :: "int list"
  raw_threshold :: "string option"

definition variant_edge :: "int \<Rightarrow> json" where
  "variant_edge q = JObj [(''node'', JObj [(''inventoryQuantity'', JInt q)])]"

definition node_fields :: "raw_product \<Rightarrow> (string \<times> json) list" where
  "node_fields p =
     [(''id'', JStr (raw_id p)),
      (''title'', JStr (raw_title p)),
      (''featuredImage'',
         case raw_image p of None \<Rightarrow> JNull | Some url \<Rightarrow> JObj [(''url'', JStr url)]),
      (''variants'', JObj [(''edges'', JList (map variant_edge (raw_quantities p)))])]"

text \<open>The edge of a product in the answer to the query of \<^verbatim>\<open>show_urgent\<close>.\<close>

definition global_edge :: "raw_product \<Rightarrow> json" where
  "global_edge p = JObj [(''node'', JObj (node_fields p))]"

text \<open>
  The edge of a product in the answer to the query of \<^verbatim>\<open>show_category\<close>, which asks
  for the metafield too.
\<close>

definition category_edge :: "raw_product \<Rightarrow> json" where
  "category_edge p =
     JObj [(''node'', JObj (node_fields p @
       [(''metafield'',
           case raw_threshold p of None \<Rightarrow> JNull | Some v \<Rightarrow> JObj [(''value'', JStr v)])]))]"

definition response :: "json list \<Rightarrow> json" where
  "response edges = JObj [(''data'', JObj [(''products'', JObj [(''edges'', JList edges)])])]"

subsection \<open>The specification's words\<close>

text \<open>
  \<open>currentQuantity\<close>: the first variant's inventory quantity if at least one variant
  exists, else 0.
\<close>

definition currentQuantity :: "raw_product \<Rightarrow> int" where
  "currentQuantity p = (case raw_quantities p of [] \<Rightarrow> 0 | q # qs \<Rightarrow> q)"

text \<open>\<open>imageUrl\<close>: the featured image URL if present, else null.\<close>

definition imageUrl :: "raw_product \<Rightarrow> json" where
  "imageUrl p = (case raw_image p of None \<Rightarrow> JNull | Some url \<Rightarrow> JStr url)"

text \<open>
  \<open>parsed_threshold\<close>: the parsed integer of the threshold annotation's value if the
  annotation is present, else 0; nothing when the value is no integer.
\<close>

definition parsed_threshold :: "config \<Rightarrow> raw_product \<Rightarrow> int option" where
  "parsed_threshold cfg p =
     (case raw_threshold p of
        None \<Rightarrow> Some 0
      | Some v \<Rightarrow> int_of_string (int_max_str_digits cfg) v)"

text \<open>
  The decimal numeral of an integer: a minus sign for a negative number and the digits
  of its absolute value, the first of them 0 only for the number 0.
\<close>

fun decimal_nat :: "nat \<Rightarrow> string" where
  "decimal_nat n =
     (if n < 10 then [char_of (48 + n)]
      else decimal_nat (n div 10) @ [char_of (48 + n mod 10)])"

definition decimal :: "int \<Rightarrow> string" where
  "decimal i = (if i < 0 then CHR ''-'' # decimal_nat (nat (- i)) else decimal_nat (nat i))"

text \<open>
  The alert record of the global policy: \<open>neededQuantity = -currentQuantity\<close>.
\<close>

definition global_alert :: "raw_product \<Rightarrow> urgent_product" where
  "global_alert p =
     \<lparr>urgent_product.title = JStr (raw_title p), image_url = imageUrl p,
      current_qty = JInt (currentQuantity p), needed_qty = - currentQuantity p\<rparr>"

text \<open>
  The alert record of the category policy for a product of threshold \<open>t\<close>:
  \<open>neededQuantity = threshold - currentQuantity\<close>.
\<close>

definition threshold_alert :: "int \<Rightarrow> raw_product \<Rightarrow> product" where
  "threshold_alert t p =
     \<lparr>product_data.title = JStr (raw_title p), image_url = imageUrl p,
      current_qty = JInt (currentQuantity p), threshold = t,
      needed_qty = t - currentQuantity p\<rparr>"


text \<open>
  The product record of the normalizer for a product of threshold \<open>t\<close>: title, image
  URL, current quantity and threshold.
\<close>

definition normalized :: "int \<Rightarrow> raw_product \<Rightarrow> product_data" where
  "normalized t p =
     \<lparr>product_data.title = JStr (raw_title p), image_url = imageUrl p,
      current_qty = JInt (currentQuantity p), threshold = t\<rparr>"

subsection \<open>Example worlds and products\<close>

text \<open>A world whose catalog answers every query with the same body.\<close>

definition answering :: "json \<Rightarrow> world" where
  "answering body = \<lparr>catalog = (\<lambda>query. Body body), sent = []\<rparr>"

text \<open>A world whose catalog cannot be reached.\<close>

definition unreachable :: world where
  "unreachable = \<lparr>catalog = (\<lambda>query. RequestException), sent = []\<rparr>"

text \<open>A product with one variant of quantity \<open>q\<close>, no image and no threshold.\<close>

definition stocked :: "string \<Rightarrow> int \<Rightarrow> raw_product" where
  "stocked t q =
     \<lparr>raw_id = ''gid://shopify/Product/'' @ t, raw_title = t, raw_image = None,
      raw_quantities = [q], raw_threshold = None\<rparr>"

definition example_config :: config where
  "example_config =
     \<lparr>METAFIELD_NAMESPACE = ''custom'', METAFIELD_KEY = ''threshold'',
      int_max_str_digits = 4300\<rparr>"

definition with_threshold :: "string \<Rightarrow> raw_product \<Rightarrow> raw_product" where
  "with_threshold v p = p\<lparr>raw_threshold := Some v\<rparr>"

text \<open>Two products of the same shortfall, in the order X, Y.\<close>

definition tie_global :: "raw_product list" where
  "tie_global = [stocked ''X'' (- 7), stocked ''Y'' (- 7)]"

definition tie_category :: "raw_product list" where
  "tie_category = [with_threshold ''10'' (stocked ''X'' 3), with_threshold ''10'' (stocked ''Y'' 3)]"

text \<open>A product with no variant.\<close>

definition unstocked :: "string \<Rightarrow> raw_product" where
  "unstocked t =
     \<lparr>raw_id = ''gid://shopify/Product/'' @ t, raw_title = t, raw_image = None,
      raw_quantities = [], raw_threshold = None\<rparr>"

text \<open>A product with an image, two variants and a threshold; and one with none of them.\<close>

definition pictured :: raw_product where
  "pictured =
     \<lparr>raw_id = ''gid://shopify/Product/1'', raw_title = ''Quilt, blue'',
      raw_image = Some ''https://cdn.example/blue.png'', raw_quantities = [4, 9],
      raw_threshold = Some '' 10 ''\<rparr>"

section \<open>Lemmas about the model\<close>

subsection \<open>Faults and the ranking\<close>

lemma bindE_simps [simp]:
  "bindE (Inl e) f = Inl e"
  "bindE (Inr v) f = f v"
  by (simp_all add: bindE_def)

lemma bindE_InrE:
  assumes "bindE m f = Inr y"
  obtains v where "m = Inr v" and "f v = Inr y"
  using assms by (cases m) simp_all

lemma getitem_head: "getitem (JObj ((k, v) # kvs)) k = Inr v"
  by simp

lemma set_sorted_reverse [simp]: "set (sorted_reverse f xs) = set xs"
  by (simp add: sorted_reverse_def)

lemma mset_sorted_reverse [simp]: "mset (sorted_reverse f xs) = mset xs"
  by (simp add: sorted_reverse_def)

lemma sorted_reverse_descending:
  "sorted_wrt (\<lambda>a b. f a \<ge> f b) (sorted_reverse f xs)"
proof -
  have "sorted (map f (sort_key f (rev xs)))"
    by (rule sorted_sort_key)
  then have "sorted_wrt (\<lambda>a b. f a \<le> f b) (sort_key f (rev xs))"
    by (simp add: sorted_map)
  then show ?thesis
    by (simp add: sorted_reverse_def sorted_wrt_rev)
qed

lemma sorted_reverse_stable:
  "filter (\<lambda>a. f a = k) (sorted_reverse f xs) = filter (\<lambda>a. f a = k) xs"
  by (simp add: sorted_reverse_def rev_filter [symmetric] sort_key_stable)

lemma page_eqI:
  assumes "template pg = t" and "products pg = ps" and "page_title pg = n"
  shows "pg = \<lparr>template = t, products = ps, page_title = n\<rparr>"
  using assms by (cases pg) simp

subsection \<open>The integer of a string\<close>

declare decimal_nat.simps [simp del]

lemma isdigit_char_of:
  assumes "d < 10"
  shows "isdigit (char_of (48 + d :: nat))" and "digit_value (char_of (48 + d :: nat)) = d"
  using assms by (simp_all add: isdigit_def digit_value_def)

lemma isdigit_not_space: "isdigit c \<Longrightarrow> \<not> isspace c"
  by (auto simp: isdigit_def isspace_def)

lemma isdigit_not_sign: "isdigit c \<Longrightarrow> c \<noteq> CHR ''-'' \<and> c \<noteq> CHR ''+'' \<and> c \<noteq> CHR ''_''"
  by (auto simp: isdigit_def)

lemma decimal_nat_digits: "\<forall>c\<in>set (decimal_nat n). isdigit c"
proof (induction n rule: decimal_nat.induct)
  case (1 n)
  show ?case
  proof (cases "n < 10")
    case True
    then show ?thesis
      by (simp add: decimal_nat.simps [of n] isdigit_char_of)
  next
    case False
    with "1" show ?thesis
      by (simp add: decimal_nat.simps [of n] isdigit_char_of)
  qed
qed

lemma decimal_nat_not_Nil: "decimal_nat n \<noteq> []"
  by (simp add: decimal_nat.simps [of n])

lemma digits_decimal_nat:
  "digits acc (decimal_nat n @ cs) = digits (acc * 10 ^ length (decimal_nat n) + n) cs"
proof (induction n arbitrary: acc cs rule: decimal_nat.induct)
  case (1 n)
  show ?case
  proof (cases "n < 10")
    case True
    then show ?thesis
      by (simp add: decimal_nat.simps [of n] isdigit_char_of)
  next
    case False
    have "digits acc (decimal_nat n @ cs) =
        digits acc (decimal_nat (n div 10) @ char_of (48 + n mod 10) # cs)"
      using False by (simp add: decimal_nat.simps [of n])
    also have "\<dots> = digits (acc * 10 ^ length (decimal_nat (n div 10)) + n div 10)
        (char_of (48 + n mod 10) # cs)"
      using False by (rule "1.IH")
    also have "\<dots> = digits ((acc * 10 ^ length (decimal_nat (n div 10)) + n div 10) * 10 + n mod 10) cs"
      by (simp add: isdigit_char_of)
    also have "(acc * 10 ^ length (decimal_nat (n div 10)) + n div 10) * 10 + n mod 10 =
        acc * 10 ^ length (decimal_nat n) + n"
      using False by (simp add: decimal_nat.simps [of n] algebra_simps)
    finally show ?thesis .
  qed
qed

lemma digits_decimal_nat_value: "digits 0 (decimal_nat n) = Some n"
  using digits_decimal_nat [of 0 n "[]"] by simp

lemma filter_isdigit_decimal_nat: "filter isdigit (decimal_nat n) = decimal_nat n"
  using decimal_nat_digits [of n] by (simp add: filter_id_conv)

lemma unsigned_decimal_nat:
  assumes "\<not> too_many_digits limit (decimal_nat n)"
  shows "unsigned limit (decimal_nat n) = Some n"
proof (cases "decimal_nat n")
  case Nil
  with decimal_nat_not_Nil show ?thesis by simp
next
  case (Cons c cs)
  with decimal_nat_digits [of n] have "isdigit c" by simp
  with Cons assms digits_decimal_nat_value [of n] show ?thesis
    by (simp add: unsigned_def)
qed

lemma strip_padded:
  assumes "\<forall>c\<in>set l. isspace c" and "\<forall>c\<in>set r. isspace c"
    and "s \<noteq> []" and "\<not> isspace (hd s)" and "\<not> isspace (last s)"
  shows "strip (l @ s @ r) = s"
proof -
  have "dropWhile isspace (l @ s @ r) = dropWhile isspace (s @ r)"
    using assms(1) by (simp add: dropWhile_append2)
  also have "\<dots> = s @ r"
    using assms(3,4) by (cases s) simp_all
  finally have 1: "dropWhile isspace (l @ s @ r) = s @ r" .
  have "dropWhile isspace (rev (s @ r)) = dropWhile isspace (rev r @ rev s)"
    by simp
  also have "\<dots> = dropWhile isspace (rev s)"
    by (rule dropWhile_append2) (use assms(2) in simp)
  also have "\<dots> = rev s"
    using assms(3,5) by (cases "rev s") (simp_all add: last_rev [symmetric] hd_rev)
  finally show ?thesis
    by (simp add: strip_def 1)
qed

lemma decimal_ends:
  "decimal i \<noteq> []" "\<not> isspace (hd (decimal i))" "\<not> isspace (last (decimal i))"
proof -
  show "decimal i \<noteq> []"
    by (simp add: decimal_def decimal_nat_not_Nil)
  have h: "\<not> isspace (hd (decimal_nat n))" and l: "\<not> isspace (last (decimal_nat n))" for n
    using decimal_nat_digits [of n] decimal_nat_not_Nil [of n] by (simp_all add: isdigit_not_space)
  show "\<not> isspace (hd (decimal i))"
  proof (cases "i < 0")
    case True
    then show ?thesis by (simp add: decimal_def isspace_def)
  next
    case False
    with h show ?thesis by (simp add: decimal_def)
  qed
  from l show "\<not> isspace (last (decimal i))"
    by (simp add: decimal_def decimal_nat_not_Nil)
qed

lemma int_of_string_decimal:
  assumes "\<forall>c\<in>set l. isspace c" and "\<forall>c\<in>set r. isspace c"
    and "\<not> too_many_digits limit (decimal_nat (nat \<bar>i\<bar>))"
  shows "int_of_string limit (l @ decimal i @ r) = Some i"
proof -
  have s: "strip (l @ decimal i @ r) = decimal i"
    using assms(1,2) decimal_ends [of i] by (rule strip_padded)
  show ?thesis
  proof (cases "i < 0")
    case True
    with assms(3) have "unsigned limit (decimal_nat (nat (- i))) = Some (nat (- i))"
      by (simp add: unsigned_decimal_nat)
    with True show ?thesis
      by (simp only: int_of_string_def s) (simp add: decimal_def)
  next
    case False
    with assms(3) have u: "unsigned limit (decimal_nat (nat i)) = Some (nat i)"
      by (simp add: unsigned_decimal_nat)
    obtain c cs where d: "decimal_nat (nat i) = c # cs"
      using decimal_nat_not_Nil [of "nat i"] by (cases "decimal_nat (nat i)") auto
    with decimal_nat_digits [of "nat i"] have "isdigit c" by simp
    then have "c \<noteq> CHR ''-''" and "c \<noteq> CHR ''+''"
      using isdigit_not_sign by blast+
    with False u d show ?thesis
      by (simp only: int_of_string_def s) (simp add: decimal_def)
  qed
qed

lemma isspace_not_digit: "isspace c \<Longrightarrow> \<not> isdigit c"
  using isdigit_not_space by blast

lemma filter_isdigit_dropWhile: "filter isdigit (dropWhile isspace s) = filter isdigit s"
  by (induction s) (simp_all add: isspace_not_digit)

lemma filter_isdigit_strip: "filter isdigit (strip s) = filter isdigit s"
  by (simp add: strip_def rev_filter [symmetric] filter_isdigit_dropWhile)

lemma too_many_digits_strip: "too_many_digits limit (strip s) = too_many_digits limit s"
  by (simp add: too_many_digits_def filter_isdigit_strip)

lemma too_many_digits_tail:
  assumes "too_many_digits limit (c # cs)" and "\<not> isdigit c"
  shows "too_many_digits limit cs"
  using assms by (simp add: too_many_digits_def)

lemma int_of_string_too_many_digits:
  assumes "too_many_digits limit s"
  shows "int_of_string limit s = None"
proof (cases "strip s")
  case Nil
  then show ?thesis by (simp add: int_of_string_def)
next
  case (Cons c cs)
  from assms have t: "too_many_digits limit (c # cs)"
    using too_many_digits_strip [of limit s] Cons by simp
  show ?thesis
  proof (cases "isdigit c")
    case True
    with t Cons show ?thesis
      using isdigit_not_sign [of c] by (simp add: int_of_string_def unsigned_def)
  next
    case False
    with t have "too_many_digits limit cs"
      by (rule too_many_digits_tail)
    then have "unsigned limit cs = None"
      by (cases cs) (simp_all add: unsigned_def)
    with False Cons show ?thesis
      by (simp add: int_of_string_def unsigned_def)
  qed
qed

lemma digits_zeros: "digits acc (replicate n (CHR ''0'')) = Some (acc * 10 ^ n)"
  by (induction n arbitrary: acc) (simp_all add: isdigit_def digit_value_def)

lemma too_many_zeros:
  "too_many_digits limit (replicate n (CHR ''0'')) \<longleftrightarrow> 640 < n \<and> 0 < limit \<and> limit < n"
  by (simp add: too_many_digits_def isdigit_def)

lemma int_of_string_zeros:
  assumes "0 < n" and "\<not> too_many_digits limit (replicate n (CHR ''0''))"
  shows "int_of_string limit (replicate n (CHR ''0'')) = Some 0"
proof -
  obtain m where n: "n = Suc m"
    using assms(1) by (cases n) auto
  have "strip (replicate n (CHR ''0'')) = replicate n (CHR ''0'')"
    by (simp add: strip_def isspace_def)
  moreover have "unsigned limit (replicate n (CHR ''0'')) = Some 0"
    using assms(2) digits_zeros [of 0 n] by (simp add: unsigned_def n isdigit_def)
  ultimately show ?thesis
    by (simp add: int_of_string_def n)
qed

lemma int_of_string_accepts:
  "int_of_string limit '' 10 '' = Some 10"
  "int_of_string limit ''+1_0'' = Some 10"
  "int_of_string limit ''-3'' = Some (- 3)"
  "int_of_string limit ''007'' = Some 7"
  "int_of_string limit [CHR 0x09, CHR ''4'', CHR 0x0A] = Some 4"
  "int_of_string limit [CHR 0x0B, CHR 0x0C, CHR ''4'', CHR 0x0D] = Some 4"
  "int_of_string limit [CHR 0xA0, CHR ''4'', CHR 0x85] = Some 4"
  by (simp_all add: int_of_string_def strip_def isspace_def unsigned_def isdigit_def
      digit_value_def too_many_digits_def)

lemma int_of_string_refuses:
  "int_of_string limit [] = None"
  "int_of_string limit ''  '' = None"
  "int_of_string limit ''1__0'' = None"
  "int_of_string limit ''_1'' = None"
  "int_of_string limit ''1_'' = None"
  "int_of_string limit ''3.5'' = None"
  "int_of_string limit ''- 5'' = None"
  "int_of_string limit ''+-5'' = None"
  "int_of_string limit ''1 0'' = None"
  "int_of_string limit ''0x10'' = None"
  "int_of_string limit [CHR 0x1C, CHR ''7''] = None"
  "int_of_string limit [CHR ''7'', CHR 0x1F] = None"
  "int_of_string limit [CHR 0x1D, CHR ''7'', CHR 0x1E] = None"
  by (simp_all add: int_of_string_def strip_def isspace_def unsigned_def isdigit_def
      digit_value_def too_many_digits_def)

lemma decimal_10: "decimal 10 = ''10''"
  by code_simp

subsection \<open>The views as functions of the catalog's answer\<close>

lemma show_urgent_page:
  "fst (show_urgent w) =
     urgent_page (case catalog w urgent_query of RequestException \<Rightarrow> JNull | Body j \<Rightarrow> j)"
  by (simp add: show_urgent_def run_graphql_query_def)

lemma show_category_page:
  assumes "map_of CATEGORIES category_slug = Some cat"
  shows "fst (show_category cfg category_slug w) =
    category_page cfg cat
      (case catalog w (category_query cfg (tag cat)) of RequestException \<Rightarrow> JNull | Body j \<Rightarrow> j)"
  using assms by (simp add: show_category_def run_graphql_query_def)

lemma show_category_unknown:
  assumes "map_of CATEGORIES category_slug = None"
  shows "show_category cfg category_slug w = (Inl NotFound, w)"
  using assms by (simp add: show_category_def)

lemma urgent_page_cases:
  assumes "urgent_page data = Inr pg"
  shows "products pg = [] \<or>
    (\<exists>edges out. urgent_loop edges [] = Inr out \<and>
       products pg = sorted_reverse urgent_product.needed_qty out)"
  using assms unfolding urgent_page_def
  by (fastforce elim!: bindE_InrE split: if_splits)

lemma category_page_cases:
  assumes "category_page cfg cat data = Inr pg"
  shows "products pg = [] \<or>
    (\<exists>all_products out. category_loop all_products [] = Inr out \<and>
       products pg = sorted_reverse product.needed_qty out)"
  using assms unfolding category_page_def
  by (fastforce elim!: bindE_InrE split: if_splits)

subsection \<open>The loops on arbitrary answers\<close>

lemma urgent_edge_Some:
  assumes "urgent_edge edge = Inr (Some a)"
  shows "\<exists>current_qty needed. lt0 current_qty = Inr True \<and> int_sub 0 current_qty = Inr needed \<and>
           urgent_product.current_qty a = current_qty \<and> urgent_product.needed_qty a = needed"
  using assms unfolding urgent_edge_def
  by (auto elim!: bindE_InrE split: if_splits)

lemma urgent_edge_positive:
  assumes "urgent_edge edge = Inr (Some a)"
  shows "urgent_product.needed_qty a > 0"
proof -
  from urgent_edge_Some [OF assms] obtain current_qty
    where "lt0 current_qty = Inr True"
      and "int_sub 0 current_qty = Inr (urgent_product.needed_qty a)"
    by auto
  then show ?thesis
    by (cases current_qty) auto
qed

lemma urgent_loop_invariant:
  assumes "urgent_loop edges acc = Inr out" and "\<forall>a\<in>set acc. P a"
    and "\<And>e a. urgent_edge e = Inr (Some a) \<Longrightarrow> P a"
  shows "\<forall>a\<in>set out. P a"
  using assms(1,2)
proof (induction edges arbitrary: acc)
  case Nil
  then show ?case by simp
next
  case (Cons e edges)
  show ?case
  proof (cases "urgent_edge e")
    case (Inl err)
    with Cons.prems show ?thesis by simp
  next
    case (Inr r)
    show ?thesis
    proof (cases r)
      case None
      with Inr Cons show ?thesis by simp
    next
      case (Some a)
      with Inr Cons.prems have "urgent_loop edges (acc @ [a]) = Inr out" by simp
      moreover have "\<forall>x\<in>set (acc @ [a]). P x"
        using Cons.prems(2) assms(3) Inr Some by auto
      ultimately show ?thesis by (rule Cons.IH)
    qed
  qed
qed

lemma category_product_positive:
  assumes "category_product p = Inr (Some a)"
  shows "product.needed_qty a > 0"
  using assms unfolding category_product_def
  by (auto elim!: bindE_InrE simp: product_data.extend_def product.fields_def split: if_splits)

lemma category_loop_invariant:
  assumes "category_loop ps acc = Inr out" and "\<forall>a\<in>set acc. P a"
    and "\<And>p a. category_product p = Inr (Some a) \<Longrightarrow> P a"
  shows "\<forall>a\<in>set out. P a"
  using assms(1,2)
proof (induction ps arbitrary: acc)
  case Nil
  then show ?case by simp
next
  case (Cons p ps)
  show ?case
  proof (cases "category_product p")
    case (Inl err)
    with Cons.prems show ?thesis by simp
  next
    case (Inr r)
    show ?thesis
    proof (cases r)
      case None
      with Inr Cons show ?thesis by simp
    next
      case (Some a)
      with Inr Cons.prems have "category_loop ps (acc @ [a]) = Inr out" by simp
      moreover have "\<forall>x\<in>set (acc @ [a]). P x"
        using Cons.prems(2) assms(3) Inr Some by auto
      ultimately show ?thesis by (rule Cons.IH)
    qed
  qed
qed


subsection \<open>The views on answers of the documented shape\<close>

lemma variant_edges_node [simp]:
  "variant_edges (JObj (node_fields p @ rest)) = Inr (JList (map variant_edge (raw_quantities p)))"
  by (simp add: variant_edges_def node_fields_def)

lemma first_inventoryQuantity_node [simp]:
  "raw_quantities p \<noteq> [] \<Longrightarrow>
   first_inventoryQuantity (JObj (node_fields p @ rest)) = Inr (JInt (currentQuantity p))"
  by (cases "raw_quantities p")
    (simp_all add: first_inventoryQuantity_def currentQuantity_def variant_edge_def node_fields_def)

lemma featured_image_url_node [simp]:
  "featured_image_url (JObj (node_fields p @ rest)) = Inr (imageUrl p)"
  by (cases "raw_image p") (simp_all add: featured_image_url_def imageUrl_def node_fields_def)

lemma getitem_title_node [simp]:
  "getitem (JObj (node_fields p @ rest)) ''title'' = Inr (JStr (raw_title p))"
  by (simp add: node_fields_def)

lemma getitem_metafield_node [simp]:
  "getitem (JObj (node_fields p @ [(''metafield'', m)])) ''metafield'' = Inr m"
  by (simp add: node_fields_def)

lemma currentQuantity_no_variant [simp]: "raw_quantities p = [] \<Longrightarrow> currentQuantity p = 0"
  by (simp add: currentQuantity_def)

lemma current_qty_node:
  "(if truthy (JList (map variant_edge (raw_quantities p)))
    then first_inventoryQuantity (JObj (node_fields p @ rest)) else Inr (JInt 0)) =
   Inr (JInt (currentQuantity p))"
  by (cases "raw_quantities p = []") simp_all

lemma product_edges_of_response [simp]: "product_edges_of (response edges) = Inr (JList edges)"
  by (simp add: product_edges_of_def response_def)

lemma contains_errors_response [simp]: "contains (response edges) ''errors'' = Inr False"
  by (simp add: response_def)

lemma response_not_null [simp]: "response edges \<noteq> JNull"
  by (simp add: response_def)

lemma urgent_edge_global:
  "urgent_edge (global_edge p) = Inr (if currentQuantity p < 0 then Some (global_alert p) else None)"
proof (cases "raw_quantities p = []")
  case True
  then show ?thesis
    using variant_edges_node [of p "[]"] by (simp add: urgent_edge_def global_edge_def)
next
  case False
  then show ?thesis
    using variant_edges_node [of p "[]"] first_inventoryQuantity_node [of p "[]"]
      getitem_title_node [of p "[]"] featured_image_url_node [of p "[]"]
    by (simp add: urgent_edge_def global_edge_def global_alert_def)
qed

lemma urgent_loop_global:
  "urgent_loop (map global_edge ps) acc =
     Inr (acc @ map global_alert (filter (\<lambda>p. currentQuantity p < 0) ps))"
  by (induction ps arbitrary: acc) (simp_all add: urgent_edge_global)

lemma urgent_page_response:
  "urgent_page (response (map global_edge ps)) =
     Inr \<lparr>template = ''urgent_page.html'',
          products = sorted_reverse urgent_product.needed_qty
            (map global_alert (filter (\<lambda>p. currentQuantity p < 0) ps)),
          page_title = ''Urgent''\<rparr>"
  by (simp add: urgent_page_def urgent_loop_global)

lemma process_edge_category:
  "process_edge cfg (category_edge p) =
     (case parsed_threshold cfg p of None \<Rightarrow> Inl ValueError | Some t \<Rightarrow> Inr (normalized t p))"
proof -
  let ?m = "case raw_threshold p of None \<Rightarrow> JNull | Some v \<Rightarrow> JObj [(''value'', JStr v)]"
  have t: "(if truthy ?m then bindE (getitem ?m ''value'') (py_int (int_max_str_digits cfg)) else Inr 0) =
      (case parsed_threshold cfg p of None \<Rightarrow> Inl ValueError | Some t \<Rightarrow> Inr t)"
    by (cases "raw_threshold p") (simp_all add: parsed_threshold_def split: option.splits)
  have "process_edge cfg (category_edge p) =
      bindE (case parsed_threshold cfg p of None \<Rightarrow> Inl ValueError | Some t \<Rightarrow> Inr t)
        (\<lambda>threshold. Inr (normalized threshold p))"
    unfolding process_edge_def category_edge_def
    by (simp add: getitem_head current_qty_node t normalized_def del: getitem.simps truthy.simps)
  then show ?thesis
    by (simp split: option.splits)
qed

lemma process_loop_category:
  assumes "\<forall>p\<in>set ps. parsed_threshold cfg p = Some (thr p)"
  shows "process_loop cfg (map category_edge ps) acc = Inr (acc @ map (\<lambda>p. normalized (thr p) p) ps)"
  using assms by (induction ps arbitrary: acc) (simp_all add: process_edge_category)

lemma process_loop_unparsable:
  assumes "\<exists>p\<in>set ps. parsed_threshold cfg p = None"
  shows "process_loop cfg (map category_edge ps) acc = Inl ValueError"
  using assms
proof (induction ps arbitrary: acc)
  case Nil
  then show ?case by simp
next
  case (Cons p ps)
  show ?case
  proof (cases "parsed_threshold cfg p")
    case None
    then show ?thesis by (simp add: process_edge_category)
  next
    case (Some t)
    with Cons.prems have "\<exists>p\<in>set ps. parsed_threshold cfg p = None" by auto
    then have "process_loop cfg (map category_edge ps) (acc @ [normalized t p]) = Inl ValueError"
      by (rule Cons.IH)
    with Some show ?thesis by (simp add: process_edge_category)
  qed
qed

lemma process_product_edges_list: "process_product_edges cfg (JList es) = process_loop cfg es []"
  by (cases es) (simp_all add: process_product_edges_def)

lemma category_product_normalized:
  "category_product (normalized t p) =
     Inr (if t - currentQuantity p > 0 then Some (threshold_alert t p) else None)"
  by (simp add: category_product_def normalized_def threshold_alert_def
      product_data.extend_def product.fields_def)

lemma category_loop_normalized:
  "category_loop (map (\<lambda>p. normalized (thr p) p) ps) acc =
     Inr (acc @ map (\<lambda>p. threshold_alert (thr p) p) (filter (\<lambda>p. thr p - currentQuantity p > 0) ps))"
  by (induction ps arbitrary: acc) (simp_all add: category_product_normalized)

lemma category_page_response:
  assumes "\<forall>p\<in>set ps. parsed_threshold cfg p = Some (thr p)"
  shows "category_page cfg cat (response (map category_edge ps)) =
     Inr \<lparr>template = ''category_page.html'',
          products = sorted_reverse product.needed_qty
            (map (\<lambda>p. threshold_alert (thr p) p) (filter (\<lambda>p. thr p - currentQuantity p > 0) ps)),
          page_title = category.title cat\<rparr>"
  by (simp add: category_page_def process_product_edges_list process_loop_category [OF assms]
      category_loop_normalized)

lemma category_page_unparsable:
  assumes "\<exists>p\<in>set ps. parsed_threshold cfg p = None"
  shows "category_page cfg cat (response (map category_edge ps)) = Inl ValueError"
  by (simp add: category_page_def process_product_edges_list process_loop_unparsable [OF assms])

lemma global_alert_inj:
  "global_alert p = global_alert q \<Longrightarrow> currentQuantity p = currentQuantity q"
  by (simp add: global_alert_def)

lemma global_alert_member:
  assumes "p \<in> set ps"
  shows "global_alert p \<in> set (map global_alert (filter (\<lambda>p. currentQuantity p < 0) ps))
     \<longleftrightarrow> currentQuantity p < 0"
proof
  assume "global_alert p \<in> set (map global_alert (filter (\<lambda>p. currentQuantity p < 0) ps))"
  then obtain q where "currentQuantity q < 0" and "global_alert p = global_alert q"
    by auto
  then show "currentQuantity p < 0"
    using global_alert_inj [of p q] by simp
next
  assume "currentQuantity p < 0"
  with assms show "global_alert p \<in> set (map global_alert (filter (\<lambda>p. currentQuantity p < 0) ps))"
    by simp
qed

lemma global_alert_fields:
  assumes "a \<in> set (map global_alert (filter (\<lambda>p. currentQuantity p < 0) ps))"
  shows "\<exists>q<0. urgent_product.current_qty a = JInt q \<and> urgent_product.needed_qty a = - q"
proof -
  from assms obtain p where "currentQuantity p < 0" and "a = global_alert p"
    by auto
  then show ?thesis
    by (simp add: global_alert_def)
qed

subsection \<open>The records of a rendered page, on arbitrary answers\<close>

lemma urgent_edge_record:
  assumes "urgent_edge edge = Inr (Some a)"
  shows "\<exists>q<0. urgent_product.current_qty a = JInt q \<and> urgent_product.needed_qty a = - q"
proof -
  from urgent_edge_Some [OF assms] obtain current_qty
    where "lt0 current_qty = Inr True"
      and "int_sub 0 current_qty = Inr (urgent_product.needed_qty a)"
      and "urgent_product.current_qty a = current_qty"
    by auto
  then show ?thesis
    by (cases current_qty) auto
qed

lemma category_product_record:
  assumes "category_product p = Inr (Some a)"
  shows "int_sub (threshold a) (product_data.current_qty a) = Inr (product.needed_qty a)
    \<and> product.needed_qty a > 0"
  using assms unfolding category_product_def
  by (auto elim!: bindE_InrE simp: product_data.extend_def product.fields_def split: if_splits)

lemma show_urgent_records:
  assumes "fst (show_urgent w) = Inr pg"
  shows "\<forall>a\<in>set (products pg). \<exists>q<0. urgent_product.current_qty a = JInt q
    \<and> urgent_product.needed_qty a = - q"
proof -
  from assms have "urgent_page
      (case catalog w urgent_query of RequestException \<Rightarrow> JNull | Body j \<Rightarrow> j) = Inr pg"
    by (simp add: show_urgent_page)
  from urgent_page_cases [OF this] show ?thesis
  proof
    assume "products pg = []"
    then show ?thesis by simp
  next
    assume "\<exists>edges out. urgent_loop edges [] = Inr out \<and>
       products pg = sorted_reverse urgent_product.needed_qty out"
    then obtain edges out where l: "urgent_loop edges [] = Inr out"
      and p: "products pg = sorted_reverse urgent_product.needed_qty out"
      by blast
    have "\<forall>a\<in>set out. \<exists>q<0. urgent_product.current_qty a = JInt q
        \<and> urgent_product.needed_qty a = - q"
      by (rule urgent_loop_invariant [OF l]) (simp_all add: urgent_edge_record)
    with p show ?thesis by simp
  qed
qed

lemma show_category_records:
  assumes "fst (show_category cfg category_slug w) = Inr pg"
  shows "\<forall>a\<in>set (products pg).
      int_sub (threshold a) (product_data.current_qty a) = Inr (product.needed_qty a)
      \<and> product.needed_qty a > 0"
proof (cases "map_of CATEGORIES category_slug")
  case None
  with assms show ?thesis by (simp add: show_category_unknown)
next
  case (Some cat)
  with assms have "category_page cfg cat
      (case catalog w (category_query cfg (tag cat)) of RequestException \<Rightarrow> JNull | Body j \<Rightarrow> j) =
      Inr pg"
    by (simp add: show_category_page)
  from category_page_cases [OF this] show ?thesis
  proof
    assume "products pg = []"
    then show ?thesis by simp
  next
    assume "\<exists>all_products out. category_loop all_products [] = Inr out \<and>
       products pg = sorted_reverse product.needed_qty out"
    then obtain all_products out where l: "category_loop all_products [] = Inr out"
      and p: "products pg = sorted_reverse product.needed_qty out"
      by blast
    have "\<forall>a\<in>set out.
        int_sub (threshold a) (product_data.current_qty a) = Inr (product.needed_qty a)
        \<and> product.needed_qty a > 0"
      by (rule category_loop_invariant [OF l]) (simp_all add: category_product_record)
    with p show ?thesis by simp
  qed
qed

section \<open>The properties of the specification\<close>

subsection \<open>C1: the global negative-stock policy\<close>

text \<open>
  C1. Global (urgent) view: for every catalog response of the documented shape, the
  page lists the alert record of a product exactly when the product's current quantity
  is strictly negative; each record's needed quantity is the negated current quantity.
  In the scenario of quantities -5, 3, -12, 0 (titles A, B, C, D) the page lists C
  (needed 12), then A (needed 5). And whatever the catalog answers, every record of a
  rendered page has a negative integer as current quantity and its negation as needed
  quantity.
\<close>

theorem urgent_view_negative_stock:
  assumes "catalog w urgent_query = Body (response (map global_edge ps))"
  shows "(\<exists>pg. fst (show_urgent w) = Inr pg
    \<and> template pg = ''urgent_page.html'' \<and> page_title pg = ''Urgent''
    \<and> products pg = sorted_reverse urgent_product.needed_qty
          (map global_alert (filter (\<lambda>p. currentQuantity p < 0) ps))
    \<and> (\<forall>p\<in>set ps. global_alert p \<in> set (products pg) \<longleftrightarrow> currentQuantity p < 0)
    \<and> (\<forall>a\<in>set (products pg). \<exists>q<0. urgent_product.current_qty a = JInt q
          \<and> urgent_product.needed_qty a = - q))
    \<and> (fst (show_urgent w') = Inr pg' \<longrightarrow>
      (\<forall>a\<in>set (products pg'). \<exists>q<0. urgent_product.current_qty a = JInt q
          \<and> urgent_product.needed_qty a = - q))"
proof -
  have any: "fst (show_urgent w') = Inr pg' \<longrightarrow>
      (\<forall>a\<in>set (products pg'). \<exists>q<0. urgent_product.current_qty a = JInt q
          \<and> urgent_product.needed_qty a = - q)"
    using show_urgent_records [of w' pg'] by blast
  let ?out = "sorted_reverse urgent_product.needed_qty
          (map global_alert (filter (\<lambda>p. currentQuantity p < 0) ps))"
  let ?pg = "\<lparr>template = ''urgent_page.html'', products = ?out, page_title = ''Urgent''\<rparr>"
  have page: "fst (show_urgent w) = Inr ?pg"
    using assms by (simp add: show_urgent_page urgent_page_response)
  have iff: "\<forall>p\<in>set ps. global_alert p \<in> set (products ?pg) \<longleftrightarrow> currentQuantity p < 0"
    using global_alert_member [of _ ps] by simp
  have each: "\<forall>a\<in>set (products ?pg). \<exists>q<0. urgent_product.current_qty a = JInt q
          \<and> urgent_product.needed_qty a = - q"
    using global_alert_fields [of _ ps] by simp
  have "template ?pg = ''urgent_page.html''" and "page_title ?pg = ''Urgent''"
    and "products ?pg = ?out"
    by simp_all
  with page iff each have "\<exists>pg. fst (show_urgent w) = Inr pg
    \<and> template pg = ''urgent_page.html'' \<and> page_title pg = ''Urgent''
    \<and> products pg = ?out
    \<and> (\<forall>p\<in>set ps. global_alert p \<in> set (products pg) \<longleftrightarrow> currentQuantity p < 0)
    \<and> (\<forall>a\<in>set (products pg). \<exists>q<0. urgent_product.current_qty a = JInt q
          \<and> urgent_product.needed_qty a = - q)"
    by blast
  with any show ?thesis
    by (rule conjI [rotated])
qed

theorem urgent_view_negative_stock_scenario:
  "fst (show_urgent (answering (response (map global_edge
      [stocked ''A'' (- 5), stocked ''B'' 3, stocked ''C'' (- 12), stocked ''D'' 0])))) =
   Inr \<lparr>template = ''urgent_page.html'',
        products =
          [\<lparr>urgent_product.title = JStr ''C'', image_url = JNull, current_qty = JInt (- 12),
            needed_qty = 12\<rparr>,
           \<lparr>urgent_product.title = JStr ''A'', image_url = JNull, current_qty = JInt (- 5),
            needed_qty = 5\<rparr>],
        page_title = ''Urgent''\<rparr>"
proof -
  let ?ps = "[stocked ''A'' (- 5), stocked ''B'' 3, stocked ''C'' (- 12), stocked ''D'' 0]"
  let ?w = "answering (response (map global_edge ?ps))"
  have "catalog ?w urgent_query = Body (response (map global_edge ?ps))"
    by (simp add: answering_def)
  from urgent_view_negative_stock [OF this]
  obtain pg where r: "fst (show_urgent ?w) = Inr pg"
    and t: "template pg = ''urgent_page.html''" and n: "page_title pg = ''Urgent''"
    and p: "products pg = sorted_reverse urgent_product.needed_qty
          (map global_alert (filter (\<lambda>p. currentQuantity p < 0) ?ps))"
    by blast
  have "sorted_reverse urgent_product.needed_qty
          (map global_alert (filter (\<lambda>p. currentQuantity p < 0) ?ps)) =
          [\<lparr>urgent_product.title = JStr ''C'', image_url = JNull, current_qty = JInt (- 12),
            needed_qty = 12\<rparr>,
           \<lparr>urgent_product.title = JStr ''A'', image_url = JNull, current_qty = JInt (- 5),
            needed_qty = 5\<rparr>]"
    by (simp add: sorted_reverse_def global_alert_def stocked_def currentQuantity_def imageUrl_def)
  with p have "products pg =
          [\<lparr>urgent_product.title = JStr ''C'', image_url = JNull, current_qty = JInt (- 12),
            needed_qty = 12\<rparr>,
           \<lparr>urgent_product.title = JStr ''A'', image_url = JNull, current_qty = JInt (- 5),
            needed_qty = 5\<rparr>]"
    by (rule trans)
  with t have "pg = \<lparr>template = ''urgent_page.html'',
        products =
          [\<lparr>urgent_product.title = JStr ''C'', image_url = JNull, current_qty = JInt (- 12),
            needed_qty = 12\<rparr>,
           \<lparr>urgent_product.title = JStr ''A'', image_url = JNull, current_qty = JInt (- 5),
            needed_qty = 5\<rparr>],
        page_title = ''Urgent''\<rparr>"
    using n by (rule page_eqI)
  with r show ?thesis
    by (simp only:)
qed

subsection \<open>C2: the per-category threshold policy\<close>

lemma int_of_string_10: "int_of_string limit ''10'' = Some 10"
  by (simp add: int_of_string_def strip_def isspace_def unsigned_def isdigit_def digit_value_def
      too_many_digits_def)

lemma int_of_string_abc: "int_of_string limit ''ten'' = None"
  by (simp add: int_of_string_def strip_def isspace_def unsigned_def isdigit_def)

lemma threshold_alert_inj:
  "threshold_alert t p = threshold_alert t' q \<Longrightarrow> t = t' \<and> currentQuantity p = currentQuantity q"
  by (simp add: threshold_alert_def)

lemma threshold_alert_member:
  assumes "p \<in> set ps"
  shows "threshold_alert (thr p) p \<in>
      set (map (\<lambda>p. threshold_alert (thr p) p) (filter (\<lambda>p. thr p - currentQuantity p > 0) ps))
     \<longleftrightarrow> thr p - currentQuantity p > 0"
proof
  assume "threshold_alert (thr p) p \<in>
      set (map (\<lambda>p. threshold_alert (thr p) p) (filter (\<lambda>p. thr p - currentQuantity p > 0) ps))"
  then obtain q where "thr q - currentQuantity q > 0"
    and "threshold_alert (thr p) p = threshold_alert (thr q) q"
    by auto
  then show "thr p - currentQuantity p > 0"
    using threshold_alert_inj [of "thr p" p "thr q" q] by simp
next
  assume "thr p - currentQuantity p > 0"
  with assms show "threshold_alert (thr p) p \<in>
      set (map (\<lambda>p. threshold_alert (thr p) p) (filter (\<lambda>p. thr p - currentQuantity p > 0) ps))"
    by simp
qed

lemma threshold_alert_fields:
  assumes "a \<in> set (map (\<lambda>p. threshold_alert (thr p) p) (filter (\<lambda>p. thr p - currentQuantity p > 0) ps))"
  shows "\<exists>q. product_data.current_qty a = JInt q \<and> product.needed_qty a = threshold a - q
     \<and> product.needed_qty a > 0"
proof -
  from assms obtain p where "thr p - currentQuantity p > 0" and "a = threshold_alert (thr p) p"
    by auto
  then show ?thesis
    by (simp add: threshold_alert_def)
qed

text \<open>
  C2. Category view: for every catalog response of the documented shape whose threshold
  annotations are integers, the page lists the alert record of a product exactly when
  threshold - currentQuantity > 0, and each record's needed quantity is exactly that
  difference. In the scenario of threshold 10 and quantities 4, 10, 15 only the first
  product (needed 6) is listed. And whatever the catalog answers, the needed quantity
  of every record of a rendered page is its threshold minus its current quantity, and
  positive.
\<close>

theorem category_view_threshold_policy:
  assumes "map_of CATEGORIES category_slug = Some cat"
    and "catalog w (category_query cfg (tag cat)) = Body (response (map category_edge ps))"
    and "\<forall>p\<in>set ps. parsed_threshold cfg p = Some (thr p)"
  shows "(\<exists>pg. fst (show_category cfg category_slug w) = Inr pg
    \<and> template pg = ''category_page.html'' \<and> page_title pg = category.title cat
    \<and> products pg = sorted_reverse product.needed_qty
          (map (\<lambda>p. threshold_alert (thr p) p) (filter (\<lambda>p. thr p - currentQuantity p > 0) ps))
    \<and> (\<forall>p\<in>set ps. threshold_alert (thr p) p \<in> set (products pg)
          \<longleftrightarrow> thr p - currentQuantity p > 0)
    \<and> (\<forall>a\<in>set (products pg). \<exists>q. product_data.current_qty a = JInt q
          \<and> product.needed_qty a = threshold a - q \<and> product.needed_qty a > 0))
    \<and> (fst (show_category cfg' category_slug' w') = Inr pg' \<longrightarrow>
      (\<forall>a\<in>set (products pg').
         int_sub (threshold a) (product_data.current_qty a) = Inr (product.needed_qty a)
         \<and> product.needed_qty a > 0))"
proof -
  have any: "fst (show_category cfg' category_slug' w') = Inr pg' \<longrightarrow>
      (\<forall>a\<in>set (products pg').
         int_sub (threshold a) (product_data.current_qty a) = Inr (product.needed_qty a)
         \<and> product.needed_qty a > 0)"
    using show_category_records [of cfg' category_slug' w' pg'] by blast
  let ?out = "sorted_reverse product.needed_qty
          (map (\<lambda>p. threshold_alert (thr p) p) (filter (\<lambda>p. thr p - currentQuantity p > 0) ps))"
  let ?pg = "\<lparr>template = ''category_page.html'', products = ?out,
     page_title = category.title cat\<rparr>"
  have page: "fst (show_category cfg category_slug w) = Inr ?pg"
    using assms(2) by (simp add: show_category_page [OF assms(1)] category_page_response [OF assms(3)])
  have iff: "\<forall>p\<in>set ps. threshold_alert (thr p) p \<in> set (products ?pg)
          \<longleftrightarrow> thr p - currentQuantity p > 0"
    using threshold_alert_member [of _ ps thr] by simp
  have each: "\<forall>a\<in>set (products ?pg). \<exists>q. product_data.current_qty a = JInt q
          \<and> product.needed_qty a = threshold a - q \<and> product.needed_qty a > 0"
    using threshold_alert_fields [of _ thr ps] by simp
  have "template ?pg = ''category_page.html''" and "page_title ?pg = category.title cat"
    and "products ?pg = ?out"
    by simp_all
  with page iff each have "\<exists>pg. fst (show_category cfg category_slug w) = Inr pg
    \<and> template pg = ''category_page.html'' \<and> page_title pg = category.title cat
    \<and> products pg = ?out
    \<and> (\<forall>p\<in>set ps. threshold_alert (thr p) p \<in> set (products pg)
          \<longleftrightarrow> thr p - currentQuantity p > 0)
    \<and> (\<forall>a\<in>set (products pg). \<exists>q. product_data.current_qty a = JInt q
          \<and> product.needed_qty a = threshold a - q \<and> product.needed_qty a > 0)"
    by blast
  with any show ?thesis
    by (rule conjI [rotated])
qed

theorem category_view_threshold_policy_scenario:
  "fst (show_category example_config ''simple'' (answering (response (map category_edge
      [with_threshold ''10'' (stocked ''X'' 4), with_threshold ''10'' (stocked ''Y'' 10),
       with_threshold ''10'' (stocked ''Z'' 15)])))) =
   Inr \<lparr>template = ''category_page.html'',
        products =
          [\<lparr>product_data.title = JStr ''X'', image_url = JNull, current_qty = JInt 4,
            threshold = 10, needed_qty = 6\<rparr>],
        page_title = ''Simple''\<rparr>"
proof -
  let ?ps = "[with_threshold ''10'' (stocked ''X'' 4), with_threshold ''10'' (stocked ''Y'' 10),
       with_threshold ''10'' (stocked ''Z'' 15)]"
  let ?w = "answering (response (map category_edge ?ps))"
  let ?cat = "\<lparr>tag = ''HJMQS'', title = ''Simple''\<rparr>"
  have c: "map_of CATEGORIES ''simple'' = Some ?cat"
    by (simp add: CATEGORIES_def)
  have a: "catalog ?w (category_query example_config (tag ?cat)) = Body (response (map category_edge ?ps))"
    by (simp add: answering_def)
  have t: "\<forall>p\<in>set ?ps. parsed_threshold example_config p = Some ((\<lambda>p. 10) p)"
    by (simp add: parsed_threshold_def with_threshold_def stocked_def int_of_string_10)
  from category_view_threshold_policy [OF c a t]
  obtain pg where r: "fst (show_category example_config ''simple'' ?w) = Inr pg"
    and t: "template pg = ''category_page.html''" and n: "page_title pg = category.title ?cat"
    and p: "products pg = sorted_reverse product.needed_qty
          (map (\<lambda>p. threshold_alert 10 p) (filter (\<lambda>p. 10 - currentQuantity p > 0) ?ps))"
    by blast
  have "sorted_reverse product.needed_qty
          (map (\<lambda>p. threshold_alert 10 p) (filter (\<lambda>p. 10 - currentQuantity p > 0) ?ps)) =
          [\<lparr>product_data.title = JStr ''X'', image_url = JNull, current_qty = JInt 4,
            threshold = 10, needed_qty = 6\<rparr>]"
    by (simp add: sorted_reverse_def threshold_alert_def stocked_def with_threshold_def
        currentQuantity_def imageUrl_def)
  with p have "products pg =
          [\<lparr>product_data.title = JStr ''X'', image_url = JNull, current_qty = JInt 4,
            threshold = 10, needed_qty = 6\<rparr>]"
    by (rule trans)
  with t have "pg = \<lparr>template = ''category_page.html'',
        products =
          [\<lparr>product_data.title = JStr ''X'', image_url = JNull, current_qty = JInt 4,
            threshold = 10, needed_qty = 6\<rparr>],
        page_title = ''Simple''\<rparr>"
    using n by (intro page_eqI) simp_all
  with r show ?thesis
    by (simp only:)
qed

subsection \<open>C3: the ranking\<close>

lemma urgent_page_sorted:
  assumes "urgent_page data = Inr pg"
  shows "sorted_wrt (\<lambda>a b. urgent_product.needed_qty a \<ge> urgent_product.needed_qty b) (products pg)"
  using urgent_page_cases [OF assms] sorted_reverse_descending [of urgent_product.needed_qty]
  by auto

lemma category_page_sorted:
  assumes "category_page cfg cat data = Inr pg"
  shows "sorted_wrt (\<lambda>a b. product.needed_qty a \<ge> product.needed_qty b) (products pg)"
  using category_page_cases [OF assms] sorted_reverse_descending [of product.needed_qty]
  by auto

lemma show_urgent_sorted:
  assumes "fst (show_urgent w) = Inr pg"
  shows "sorted_wrt (\<lambda>a b. urgent_product.needed_qty a \<ge> urgent_product.needed_qty b) (products pg)"
  using assms by (simp add: show_urgent_page urgent_page_sorted)

lemma show_category_sorted:
  assumes "fst (show_category cfg category_slug w) = Inr pg"
  shows "sorted_wrt (\<lambda>a b. product.needed_qty a \<ge> product.needed_qty b) (products pg)"
proof (cases "map_of CATEGORIES category_slug")
  case None
  with assms show ?thesis by (simp add: show_category_unknown)
next
  case (Some cat)
  with assms show ?thesis by (simp add: show_category_page category_page_sorted)
qed

lemma show_urgent_response:
  assumes "catalog w urgent_query = Body (response (map global_edge ps))"
  shows "fst (show_urgent w) =
     Inr \<lparr>template = ''urgent_page.html'',
          products = sorted_reverse urgent_product.needed_qty
            (map global_alert (filter (\<lambda>p. currentQuantity p < 0) ps)),
          page_title = ''Urgent''\<rparr>"
  using assms by (simp add: show_urgent_page urgent_page_response)

lemma show_category_response:
  assumes "map_of CATEGORIES category_slug = Some cat"
    and "catalog w (category_query cfg (tag cat)) = Body (response (map category_edge ps))"
    and "\<forall>p\<in>set ps. parsed_threshold cfg p = Some (thr p)"
  shows "fst (show_category cfg category_slug w) =
     Inr \<lparr>template = ''category_page.html'',
          products = sorted_reverse product.needed_qty
            (map (\<lambda>p. threshold_alert (thr p) p) (filter (\<lambda>p. thr p - currentQuantity p > 0) ps)),
          page_title = category.title cat\<rparr>"
  using assms(2) by (simp add: show_category_page [OF assms(1)] category_page_response [OF assms(3)])

text \<open>
  C3. Ranking: the products of every page either view renders are in descending order
  of needed quantity; and on a response of the documented shape, the records of any one
  needed quantity stand in the page in their order of arrival from the catalog.
\<close>

theorem ranking_descending_stable:
  "(fst (show_urgent w) = Inr upage \<longrightarrow>
      sorted_wrt (\<lambda>a b. urgent_product.needed_qty a \<ge> urgent_product.needed_qty b) (products upage))
   \<and> (fst (show_category cfg category_slug w') = Inr cpage \<longrightarrow>
      sorted_wrt (\<lambda>a b. product.needed_qty a \<ge> product.needed_qty b) (products cpage))
   \<and> (catalog w urgent_query = Body (response (map global_edge ps)) \<longrightarrow>
      fst (show_urgent w) = Inr upage \<longrightarrow>
      (\<forall>k. filter (\<lambda>a. urgent_product.needed_qty a = k) (products upage) =
           filter (\<lambda>a. urgent_product.needed_qty a = k)
             (map global_alert (filter (\<lambda>p. currentQuantity p < 0) ps))))
   \<and> (map_of CATEGORIES category_slug = Some cat \<longrightarrow>
      catalog w' (category_query cfg (tag cat)) = Body (response (map category_edge qs)) \<longrightarrow>
      (\<forall>p\<in>set qs. parsed_threshold cfg p = Some (thr p)) \<longrightarrow>
      fst (show_category cfg category_slug w') = Inr cpage \<longrightarrow>
      (\<forall>k. filter (\<lambda>a. product.needed_qty a = k) (products cpage) =
           filter (\<lambda>a. product.needed_qty a = k)
             (map (\<lambda>p. threshold_alert (thr p) p)
               (filter (\<lambda>p. thr p - currentQuantity p > 0) qs))))"
proof (intro conjI impI allI)
  assume "fst (show_urgent w) = Inr upage"
  then show "sorted_wrt (\<lambda>a b. urgent_product.needed_qty a \<ge> urgent_product.needed_qty b)
      (products upage)"
    by (rule show_urgent_sorted)
next
  assume "fst (show_category cfg category_slug w') = Inr cpage"
  then show "sorted_wrt (\<lambda>a b. product.needed_qty a \<ge> product.needed_qty b) (products cpage)"
    by (rule show_category_sorted)
next
  fix k
  assume "catalog w urgent_query = Body (response (map global_edge ps))"
    and u: "fst (show_urgent w) = Inr upage"
  from show_urgent_response [OF this(1)] u
  have "products upage = sorted_reverse urgent_product.needed_qty
            (map global_alert (filter (\<lambda>p. currentQuantity p < 0) ps))"
    by auto
  then show "filter (\<lambda>a. urgent_product.needed_qty a = k) (products upage) =
           filter (\<lambda>a. urgent_product.needed_qty a = k)
             (map global_alert (filter (\<lambda>p. currentQuantity p < 0) ps))"
    by (simp only: sorted_reverse_stable)
next
  fix k
  assume "map_of CATEGORIES category_slug = Some cat"
    and "catalog w' (category_query cfg (tag cat)) = Body (response (map category_edge qs))"
    and "\<forall>p\<in>set qs. parsed_threshold cfg p = Some (thr p)"
    and c: "fst (show_category cfg category_slug w') = Inr cpage"
  from show_category_response [OF this(1,2,3)] c
  have "products cpage = sorted_reverse product.needed_qty
            (map (\<lambda>p. threshold_alert (thr p) p) (filter (\<lambda>p. thr p - currentQuantity p > 0) qs))"
    by auto
  then show "filter (\<lambda>a. product.needed_qty a = k) (products cpage) =
           filter (\<lambda>a. product.needed_qty a = k)
             (map (\<lambda>p. threshold_alert (thr p) p)
               (filter (\<lambda>p. thr p - currentQuantity p > 0) qs))"
    by (simp only: sorted_reverse_stable)
qed

lemma tie_global_page:
  "fst (show_urgent (answering (response (map global_edge tie_global)))) =
     Inr \<lparr>template = ''urgent_page.html'', products = map global_alert tie_global,
          page_title = ''Urgent''\<rparr>"
proof -
  have "catalog (answering (response (map global_edge tie_global))) urgent_query =
      Body (response (map global_edge tie_global))"
    by (simp add: answering_def)
  from show_urgent_response [OF this] show ?thesis
    by (simp add: tie_global_def sorted_reverse_def global_alert_def stocked_def currentQuantity_def)
qed

lemma simple_category: "map_of CATEGORIES ''simple'' = Some \<lparr>tag = ''HJMQS'', title = ''Simple''\<rparr>"
  by (simp add: CATEGORIES_def)

lemma tie_category_thresholds: "\<forall>p\<in>set tie_category. parsed_threshold cfg p = Some 10"
  by (simp add: tie_category_def parsed_threshold_def with_threshold_def stocked_def int_of_string_10)

lemma tie_category_page:
  "fst (show_category example_config ''simple'' (answering (response (map category_edge tie_category)))) =
     Inr \<lparr>template = ''category_page.html'', products = map (threshold_alert 10) tie_category,
          page_title = ''Simple''\<rparr>"
proof -
  have "catalog (answering (response (map category_edge tie_category)))
      (category_query example_config (tag \<lparr>tag = ''HJMQS'', title = ''Simple''\<rparr>)) =
      Body (response (map category_edge tie_category))"
    by (simp add: answering_def)
  from show_category_response [OF simple_category this, of "\<lambda>p. 10"] tie_category_thresholds
  show ?thesis
    by (simp add: tie_category_def sorted_reverse_def threshold_alert_def stocked_def
        with_threshold_def currentQuantity_def)
qed

theorem ranking_descending_stable_tie:
  "fst (show_urgent (answering (response (map global_edge tie_global)))) =
     Inr \<lparr>template = ''urgent_page.html'', products = map global_alert tie_global,
          page_title = ''Urgent''\<rparr>
   \<and> sorted_wrt (\<lambda>a b. urgent_product.needed_qty a \<ge> urgent_product.needed_qty b)
        (map global_alert tie_global)
   \<and> filter (\<lambda>a. urgent_product.needed_qty a = 7) (map global_alert tie_global) =
        [global_alert (stocked ''X'' (- 7)), global_alert (stocked ''Y'' (- 7))]
   \<and> fst (show_category example_config ''simple''
          (answering (response (map category_edge tie_category)))) =
     Inr \<lparr>template = ''category_page.html'', products = map (threshold_alert 10) tie_category,
          page_title = ''Simple''\<rparr>
   \<and> sorted_wrt (\<lambda>a b. product.needed_qty a \<ge> product.needed_qty b)
        (map (threshold_alert 10) tie_category)
   \<and> filter (\<lambda>a. product.needed_qty a = 7) (map (threshold_alert 10) tie_category) =
        [threshold_alert 10 (with_threshold ''10'' (stocked ''X'' 3)),
         threshold_alert 10 (with_threshold ''10'' (stocked ''Y'' 3))]"
proof -
  let ?w = "answering (response (map global_edge tie_global))"
  let ?w' = "answering (response (map category_edge tie_category))"
  let ?up = "\<lparr>template = ''urgent_page.html'', products = map global_alert tie_global,
          page_title = ''Urgent''\<rparr>"
  let ?cp = "\<lparr>template = ''category_page.html'', products = map (threshold_alert 10) tie_category,
          page_title = ''Simple''\<rparr>"
  let ?cat = "\<lparr>tag = ''HJMQS'', title = ''Simple''\<rparr>"
  note r = ranking_descending_stable [of ?w ?up example_config "''simple''" ?w' ?cp tie_global
      ?cat tie_category "\<lambda>p. 10"]
  have a: "catalog ?w urgent_query = Body (response (map global_edge tie_global))"
    by (simp add: answering_def)
  have b: "catalog ?w' (category_query example_config (tag ?cat)) =
      Body (response (map category_edge tie_category))"
    by (simp add: answering_def)
  have 1: "sorted_wrt (\<lambda>a b. urgent_product.needed_qty a \<ge> urgent_product.needed_qty b)
        (products ?up)"
    using r tie_global_page by blast
  have 2: "sorted_wrt (\<lambda>a b. product.needed_qty a \<ge> product.needed_qty b) (products ?cp)"
    using r tie_category_page by blast
  have 3: "filter (\<lambda>a. urgent_product.needed_qty a = 7) (products ?up) =
           filter (\<lambda>a. urgent_product.needed_qty a = 7)
             (map global_alert (filter (\<lambda>p. currentQuantity p < 0) tie_global))"
    using r tie_global_page a by blast
  have 4: "filter (\<lambda>a. product.needed_qty a = 7) (products ?cp) =
           filter (\<lambda>a. product.needed_qty a = 7)
             (map (\<lambda>p. threshold_alert 10 p)
               (filter (\<lambda>p. 10 - currentQuantity p > 0) tie_category))"
    using r tie_category_page b simple_category tie_category_thresholds by blast
  have 5: "filter (\<lambda>a. urgent_product.needed_qty a = 7)
             (map global_alert (filter (\<lambda>p. currentQuantity p < 0) tie_global)) =
        [global_alert (stocked ''X'' (- 7)), global_alert (stocked ''Y'' (- 7))]"
    by (simp add: tie_global_def global_alert_def stocked_def currentQuantity_def)
  have 6: "filter (\<lambda>a. product.needed_qty a = 7)
             (map (\<lambda>p. threshold_alert 10 p)
               (filter (\<lambda>p. 10 - currentQuantity p > 0) tie_category)) =
        [threshold_alert 10 (with_threshold ''10'' (stocked ''X'' 3)),
         threshold_alert 10 (with_threshold ''10'' (stocked ''Y'' 3))]"
    by (simp add: tie_category_def threshold_alert_def stocked_def with_threshold_def
        currentQuantity_def)
  from 1 2 3 4 5 6 tie_global_page tie_category_page show ?thesis
    by simp
qed

subsection \<open>C4: failures of the catalog\<close>

text \<open>
  What the views do when the catalog fails. \<^verbatim>\<open>show_category\<close> renders an empty page on
  a transport failure and on a response that carries errors; \<^verbatim>\<open>show_urgent\<close> renders
  an empty page on a response that carries errors.
\<close>

lemma show_category_transport_failure:
  assumes "map_of CATEGORIES category_slug = Some cat"
    and "catalog w (category_query cfg (tag cat)) = RequestException"
  shows "fst (show_category cfg category_slug w) =
    Inr \<lparr>template = ''category_page.html'', products = [], page_title = category.title cat\<rparr>"
  using assms(2) by (simp add: show_category_page [OF assms(1)] category_page_def)

lemma show_category_error_response:
  assumes "map_of CATEGORIES category_slug = Some cat"
    and "catalog w (category_query cfg (tag cat)) = Body (JObj kvs)"
    and "''errors'' \<in> set (map fst kvs)"
  shows "fst (show_category cfg category_slug w) =
    Inr \<lparr>template = ''category_page.html'', products = [], page_title = category.title cat\<rparr>"
  using assms(2,3)
  by (cases "map_of kvs ''errors''") (simp_all add: show_category_page [OF assms(1)] category_page_def)

lemma show_urgent_error_response:
  assumes "catalog w urgent_query = Body (JObj kvs)"
    and "''errors'' \<in> set (map fst kvs)"
  shows "fst (show_urgent w) =
    Inr \<lparr>template = ''urgent_page.html'', products = [], page_title = ''Urgent''\<rparr>"
  using assms
  by (cases "map_of kvs ''errors''") (simp_all add: show_urgent_page urgent_page_def)

text \<open>
  C4. On a transport failure \<^verbatim>\<open>run_graphql_query\<close> returns \<^verbatim>\<open>None\<close>, and
  \<^verbatim>\<open>show_urgent\<close> then evaluates \<^verbatim>\<open>data.get('errors')\<close> on it: the view raises
  \<^verbatim>\<open>AttributeError\<close> and renders no page.
\<close>

theorem show_urgent_transport_failure_raises:
  assumes "catalog w urgent_query = RequestException"
  shows "fst (show_urgent w) = Inl AttributeError"
  using assms by (simp add: show_urgent_page urgent_page_def)

theorem show_urgent_unreachable_raises:
  "fst (show_urgent unreachable) = Inl AttributeError"
proof -
  have "catalog unreachable urgent_query = RequestException"
    by (simp add: unreachable_def)
  then show ?thesis
    by (rule show_urgent_transport_failure_raises)
qed

subsection \<open>C5: the record normalizer\<close>

lemma process_loop_total:
  "process_loop cfg (map category_edge ps) acc =
     (if \<forall>p\<in>set ps. parsed_threshold cfg p \<noteq> None
      then Inr (acc @ map (\<lambda>p. normalized (the (parsed_threshold cfg p)) p) ps)
      else Inl ValueError)"
proof (cases "\<forall>p\<in>set ps. parsed_threshold cfg p \<noteq> None")
  case True
  then have "\<forall>p\<in>set ps. parsed_threshold cfg p = Some (the (parsed_threshold cfg p))"
    by auto
  from process_loop_category [OF this] True show ?thesis
    by simp
next
  case False
  then have "\<exists>p\<in>set ps. parsed_threshold cfg p = None"
    by auto
  from process_loop_unparsable [OF this] False show ?thesis
    by simp
qed

lemma normalized_fields:
  assumes "parsed_threshold cfg p \<noteq> None"
  shows "product_data.title (normalized (the (parsed_threshold cfg p)) p) = JStr (raw_title p)"
    and "product_data.image_url (normalized (the (parsed_threshold cfg p)) p) = imageUrl p"
    and "product_data.current_qty (normalized (the (parsed_threshold cfg p)) p) = JInt (currentQuantity p)"
    and "parsed_threshold cfg p = Some (threshold (normalized (the (parsed_threshold cfg p)) p))"
  using assms by (auto simp: normalized_def)

text \<open>
  C5. The normalizer on the edges of a category response: when it returns, the output
  has one record per edge, in the order of the edges, with the title, the current
  quantity (the first variant's, or 0 without a variant), the image URL (or null) and
  the threshold (the integer the annotation's value parses to, or 0 without an
  annotation) of that edge. It returns whenever every annotation present parses, and it
  returns the empty list for an empty and for an absent edge list. As to the parsed
  integer: an annotation whose value is the decimal numeral of \<open>t\<close>, with or without
  white space around it, gives the threshold \<open>t\<close>, unless the numeral has more digits
  than the interpreter converts; and a value of more digits than that is refused.
\<close>

theorem process_product_edges_normalizes:
  "(process_product_edges cfg (JList (map category_edge ps)) = Inr out \<longrightarrow>
      length out = length ps \<and>
      (\<forall>i<length ps.
         product_data.title (out ! i) = JStr (raw_title (ps ! i)) \<and>
         product_data.current_qty (out ! i) = JInt (currentQuantity (ps ! i)) \<and>
         product_data.image_url (out ! i) = imageUrl (ps ! i) \<and>
         parsed_threshold cfg (ps ! i) = Some (threshold (out ! i))))
   \<and> ((\<forall>p\<in>set ps. parsed_threshold cfg p \<noteq> None) \<longrightarrow>
        (\<exists>out'. process_product_edges cfg (JList (map category_edge ps)) = Inr out'))
   \<and> process_product_edges cfg (JList []) = Inr []
   \<and> process_product_edges cfg JNull = Inr []
   \<and> ((\<forall>c\<in>set l. isspace c) \<longrightarrow> (\<forall>c\<in>set r. isspace c) \<longrightarrow>
        raw_threshold p = Some (l @ decimal t @ r) \<longrightarrow>
        \<not> too_many_digits (int_max_str_digits cfg) (decimal_nat (nat \<bar>t\<bar>)) \<longrightarrow>
        parsed_threshold cfg p = Some t
        \<and> process_edge cfg (category_edge p) = Inr (normalized t p))
   \<and> (raw_threshold q = Some v \<longrightarrow> too_many_digits (int_max_str_digits cfg) v \<longrightarrow>
        parsed_threshold cfg q = None
        \<and> process_edge cfg (category_edge q) = Inl ValueError)"
proof (intro conjI impI)
  assume r: "process_product_edges cfg (JList (map category_edge ps)) = Inr out"
  then have l: "process_loop cfg (map category_edge ps) [] = Inr out"
    by (simp add: process_product_edges_list)
  have ok: "\<forall>p\<in>set ps. parsed_threshold cfg p \<noteq> None"
  proof (rule ccontr)
    assume "\<not> (\<forall>p\<in>set ps. parsed_threshold cfg p \<noteq> None)"
    with l show False
      by (auto simp: process_loop_total split: if_splits)
  qed
  with l have out: "out = map (\<lambda>p. normalized (the (parsed_threshold cfg p)) p) ps"
    by (auto simp: process_loop_total split: if_splits)
  then show "length out = length ps"
    by simp
  show "\<forall>i<length ps.
         product_data.title (out ! i) = JStr (raw_title (ps ! i)) \<and>
         product_data.current_qty (out ! i) = JInt (currentQuantity (ps ! i)) \<and>
         product_data.image_url (out ! i) = imageUrl (ps ! i) \<and>
         parsed_threshold cfg (ps ! i) = Some (threshold (out ! i))"
  proof (intro allI impI)
    fix i assume i: "i < length ps"
    then have "ps ! i \<in> set ps" by simp
    with ok have "parsed_threshold cfg (ps ! i) \<noteq> None" by blast
    from normalized_fields [OF this] i out
    show "product_data.title (out ! i) = JStr (raw_title (ps ! i)) \<and>
         product_data.current_qty (out ! i) = JInt (currentQuantity (ps ! i)) \<and>
         product_data.image_url (out ! i) = imageUrl (ps ! i) \<and>
         parsed_threshold cfg (ps ! i) = Some (threshold (out ! i))"
      by simp
  qed
next
  assume "\<forall>p\<in>set ps. parsed_threshold cfg p \<noteq> None"
  then show "\<exists>out'. process_product_edges cfg (JList (map category_edge ps)) = Inr out'"
    by (simp add: process_product_edges_list process_loop_total)
next
  show "process_product_edges cfg (JList []) = Inr []"
    by (simp add: process_product_edges_def)
next
  show "process_product_edges cfg JNull = Inr []"
    by (simp add: process_product_edges_def)
next
  assume "\<forall>c\<in>set l. isspace c" and "\<forall>c\<in>set r. isspace c"
    and v: "raw_threshold p = Some (l @ decimal t @ r)"
    and "\<not> too_many_digits (int_max_str_digits cfg) (decimal_nat (nat \<bar>t\<bar>))"
  from int_of_string_decimal [OF this(1,2,4)] v
  show t: "parsed_threshold cfg p = Some t"
    by (simp add: parsed_threshold_def)
  then show "process_edge cfg (category_edge p) = Inr (normalized t p)"
    by (simp add: process_edge_category)
next
  assume v: "raw_threshold q = Some v" and "too_many_digits (int_max_str_digits cfg) v"
  from int_of_string_too_many_digits [OF this(2)] v
  show "parsed_threshold cfg q = None"
    by (simp add: parsed_threshold_def)
  then show "process_edge cfg (category_edge q) = Inl ValueError"
    by (simp add: process_edge_category)
qed

lemma pictured_unstocked_normalized:
  "process_product_edges cfg (JList (map category_edge [pictured, unstocked ''Plain''])) =
     Inr [\<lparr>product_data.title = JStr ''Quilt, blue'',
            image_url = JStr ''https://cdn.example/blue.png'', current_qty = JInt 4,
            threshold = 10\<rparr>,
          \<lparr>product_data.title = JStr ''Plain'', image_url = JNull, current_qty = JInt 0,
            threshold = 0\<rparr>]"
proof -
  have "\<forall>p\<in>set [pictured, unstocked ''Plain'']. parsed_threshold cfg p =
      Some ((\<lambda>p. if p = pictured then 10 else 0) p)"
    by (simp add: parsed_threshold_def pictured_def unstocked_def int_of_string_accepts)
  from process_loop_category [OF this, of "[]"] show ?thesis
    by (simp add: process_product_edges_list normalized_def pictured_def unstocked_def
        imageUrl_def currentQuantity_def)
qed

lemma long_threshold_accepted:
  "process_edge example_config (category_edge (with_threshold (replicate 4300 (CHR ''0'')) (stocked ''L'' 1))) =
     Inr (normalized 0 (with_threshold (replicate 4300 (CHR ''0'')) (stocked ''L'' 1)))"
proof -
  have "int_of_string 4300 (replicate 4300 (CHR ''0'')) = Some 0"
    by (rule int_of_string_zeros) (simp_all add: too_many_zeros)
  then have "parsed_threshold example_config
      (with_threshold (replicate 4300 (CHR ''0'')) (stocked ''L'' 1)) = Some 0"
    by (simp add: parsed_threshold_def with_threshold_def example_config_def)
  then show ?thesis
    by (simp add: process_edge_category)
qed

theorem process_product_edges_normalizes_example:
  "process_product_edges example_config (JList (map category_edge [pictured, unstocked ''Plain''])) =
     Inr [\<lparr>product_data.title = JStr ''Quilt, blue'',
            image_url = JStr ''https://cdn.example/blue.png'', current_qty = JInt 4,
            threshold = 10\<rparr>,
          \<lparr>product_data.title = JStr ''Plain'', image_url = JNull, current_qty = JInt 0,
            threshold = 0\<rparr>]
   \<and> currentQuantity pictured = 4 \<and> imageUrl pictured = JStr ''https://cdn.example/blue.png''
   \<and> raw_threshold pictured = Some '' 10 ''
   \<and> parsed_threshold example_config pictured = Some 10
   \<and> currentQuantity (unstocked ''Plain'') = 0 \<and> imageUrl (unstocked ''Plain'') = JNull
   \<and> parsed_threshold example_config (unstocked ''Plain'') = Some 0
   \<and> process_product_edges example_config (JList []) = Inr []
   \<and> process_product_edges example_config JNull = Inr []
   \<and> process_edge example_config (category_edge pictured) = Inr (normalized 10 pictured)
   \<and> process_edge example_config
        (category_edge (with_threshold (replicate 4301 (CHR ''0'')) (stocked ''L'' 1))) =
      Inl ValueError
   \<and> process_edge example_config
        (category_edge (with_threshold (replicate 4300 (CHR ''0'')) (stocked ''L'' 1))) =
      Inr (normalized 0 (with_threshold (replicate 4300 (CHR ''0'')) (stocked ''L'' 1)))
   \<and> int_of_string 4300 ''+1_0'' = Some 10
   \<and> int_of_string 4300 ''-3'' = Some (- 3)
   \<and> int_of_string 4300 [CHR 0xA0, CHR ''4'', CHR 0x85] = Some 4
   \<and> int_of_string 4300 [CHR 0x1C, CHR ''7''] = None
   \<and> int_of_string 4300 [CHR ''7'', CHR 0x1F] = None
   \<and> int_of_string 4300 ''1__0'' = None
   \<and> int_of_string 4300 [] = None"
proof -
  let ?ps = "[pictured, unstocked ''Plain'']"
  let ?out = "[\<lparr>product_data.title = JStr ''Quilt, blue'',
            image_url = JStr ''https://cdn.example/blue.png'', current_qty = JInt 4,
            threshold = 10\<rparr>,
          \<lparr>product_data.title = JStr ''Plain'', image_url = JNull, current_qty = JInt 0,
            threshold = 0\<rparr>]"
  let ?long = "with_threshold (replicate 4301 (CHR ''0'')) (stocked ''L'' 1)"
  note r = process_product_edges_normalizes [where cfg = example_config and ps = ?ps
      and out = ?out and l = "'' ''" and r = "'' ''" and p = pictured and t = 10
      and q = ?long and v = "replicate 4301 (CHR ''0'')"]
  from r pictured_unstocked_normalized
  have all: "\<forall>i<length ?ps.
         product_data.title (?out ! i) = JStr (raw_title (?ps ! i)) \<and>
         product_data.current_qty (?out ! i) = JInt (currentQuantity (?ps ! i)) \<and>
         product_data.image_url (?out ! i) = imageUrl (?ps ! i) \<and>
         parsed_threshold example_config (?ps ! i) = Some (threshold (?out ! i))"
    by blast
  from all [rule_format, of 0] all [rule_format, of 1]
  have 1: "currentQuantity pictured = 4 \<and> imageUrl pictured = JStr ''https://cdn.example/blue.png''
   \<and> parsed_threshold example_config pictured = Some 10
   \<and> currentQuantity (unstocked ''Plain'') = 0 \<and> imageUrl (unstocked ''Plain'') = JNull
   \<and> parsed_threshold example_config (unstocked ''Plain'') = Some 0"
    by simp
  have sp: "\<forall>c\<in>set '' ''. isspace c"
    by (simp add: isspace_def)
  have pv: "raw_threshold pictured = Some ('' '' @ decimal 10 @ '' '')"
    by (simp add: pictured_def decimal_10)
  have dn: "decimal_nat (nat \<bar>10\<bar>) = ''10''"
    by code_simp
  have few: "\<not> too_many_digits (int_max_str_digits example_config) (decimal_nat (nat \<bar>10\<bar>))"
    unfolding dn by (simp add: too_many_digits_def)
  from r sp pv few
  have 2: "process_edge example_config (category_edge pictured) = Inr (normalized 10 pictured)"
    by blast
  have lv: "raw_threshold ?long = Some (replicate 4301 (CHR ''0''))"
    by (simp add: with_threshold_def)
  have many: "too_many_digits (int_max_str_digits example_config) (replicate 4301 (CHR ''0''))"
    by (simp add: too_many_zeros example_config_def)
  from r lv many
  have 3: "process_edge example_config (category_edge ?long) = Inl ValueError"
    by blast
  have 4: "raw_threshold pictured = Some '' 10 ''"
    by (simp add: pictured_def)
  from r have 5: "process_product_edges example_config (JList []) = Inr []"
    and 6: "process_product_edges example_config JNull = Inr []"
    by blast+
  from 1 2 3 4 5 6 pictured_unstocked_normalized [of example_config] long_threshold_accepted
    int_of_string_accepts [of 4300] int_of_string_refuses [of 4300]
  show ?thesis
    by (simp only: simp_thms)
qed

subsection \<open>C6: unknown category slugs\<close>

text \<open>
  C6. A request for a category slug that is not a key of \<^verbatim>\<open>CATEGORIES\<close> ends in
  \<open>NotFound\<close>, and the world is as it was: no query has been sent to the catalog.
\<close>

theorem unknown_slug_not_found:
  assumes "category_slug \<notin> set (map fst CATEGORIES)"
  shows "show_category cfg category_slug w = (Inl NotFound, w)
    \<and> sent (snd (show_category cfg category_slug w)) = sent w"
proof -
  from assms have "map_of CATEGORIES category_slug = None"
    by (simp add: map_of_eq_None_iff)
  then show ?thesis
    by (simp add: show_category_unknown)
qed

theorem unknown_slug_not_found_example:
  "show_category example_config ''duvet'' unreachable = (Inl NotFound, unreachable)
   \<and> sent (snd (show_category example_config ''duvet'' unreachable)) = []"
proof -
  have "''duvet'' \<notin> set (map fst CATEGORIES)"
    by (simp add: CATEGORIES_def)
  from unknown_slug_not_found [OF this, of example_config unreachable]
  show ?thesis
    by (simp add: unreachable_def)
qed

subsection \<open>C7: needed quantities are positive\<close>

text \<open>
  C7. Whatever the catalog answers, every product of a page that either view renders has
  a strictly positive needed quantity.
\<close>

theorem needed_qty_positive:
  "(fst (show_urgent w) = Inr upage \<longrightarrow>
      (\<forall>a\<in>set (products upage). urgent_product.needed_qty a > 0))
   \<and> (fst (show_category cfg category_slug w') = Inr cpage \<longrightarrow>
      (\<forall>a\<in>set (products cpage). product.needed_qty a > 0))"
proof (intro conjI impI)
  assume "fst (show_urgent w) = Inr upage"
  then have "urgent_page (case catalog w urgent_query of RequestException \<Rightarrow> JNull | Body j \<Rightarrow> j) =
      Inr upage"
    by (simp add: show_urgent_page)
  from urgent_page_cases [OF this]
  show "\<forall>a\<in>set (products upage). urgent_product.needed_qty a > 0"
  proof
    assume "products upage = []"
    then show ?thesis by simp
  next
    assume "\<exists>edges out. urgent_loop edges [] = Inr out \<and>
       products upage = sorted_reverse urgent_product.needed_qty out"
    then obtain edges out where l: "urgent_loop edges [] = Inr out"
      and p: "products upage = sorted_reverse urgent_product.needed_qty out"
      by blast
    have "\<forall>a\<in>set out. urgent_product.needed_qty a > 0"
      by (rule urgent_loop_invariant [OF l]) (simp_all add: urgent_edge_positive)
    with p show ?thesis by simp
  qed
next
  assume c: "fst (show_category cfg category_slug w') = Inr cpage"
  show "\<forall>a\<in>set (products cpage). product.needed_qty a > 0"
  proof (cases "map_of CATEGORIES category_slug")
    case None
    with c show ?thesis by (simp add: show_category_unknown)
  next
    case (Some cat)
    with c have "category_page cfg cat
        (case catalog w' (category_query cfg (tag cat)) of RequestException \<Rightarrow> JNull | Body j \<Rightarrow> j) =
        Inr cpage"
      by (simp add: show_category_page)
    from category_page_cases [OF this]
    show ?thesis
    proof
      assume "products cpage = []"
      then show ?thesis by simp
    next
      assume "\<exists>all_products out. category_loop all_products [] = Inr out \<and>
         products cpage = sorted_reverse product.needed_qty out"
      then obtain all_products out where l: "category_loop all_products [] = Inr out"
        and p: "products cpage = sorted_reverse product.needed_qty out"
        by blast
      have "\<forall>a\<in>set out. product.needed_qty a > 0"
        by (rule category_loop_invariant [OF l]) (simp_all add: category_product_positive)
      with p show ?thesis by simp
    qed
  qed
qed

theorem needed_qty_positive_example:
  "fst (show_urgent (answering (response (map global_edge tie_global)))) =
     Inr \<lparr>template = ''urgent_page.html'', products = map global_alert tie_global,
          page_title = ''Urgent''\<rparr>
   \<and> list_all (\<lambda>a. urgent_product.needed_qty a > 0) (map global_alert tie_global)
   \<and> fst (show_category example_config ''simple''
          (answering (response (map category_edge tie_category)))) =
     Inr \<lparr>template = ''category_page.html'', products = map (threshold_alert 10) tie_category,
          page_title = ''Simple''\<rparr>
   \<and> list_all (\<lambda>a. product.needed_qty a > 0) (map (threshold_alert 10) tie_category)"
proof -
  let ?up = "\<lparr>template = ''urgent_page.html'', products = map global_alert tie_global,
          page_title = ''Urgent''\<rparr>"
  let ?cp = "\<lparr>template = ''category_page.html'', products = map (threshold_alert 10) tie_category,
          page_title = ''Simple''\<rparr>"
  note r = needed_qty_positive [of "answering (response (map global_edge tie_global))" ?up
      example_config "''simple''" "answering (response (map category_edge tie_category))" ?cp]
  have 1: "\<forall>a\<in>set (products ?up). urgent_product.needed_qty a > 0"
    using r tie_global_page by blast
  have 2: "\<forall>a\<in>set (products ?cp). product.needed_qty a > 0"
    using r tie_category_page by blast
  from 1 2 tie_global_page tie_category_page show ?thesis
    by (simp add: list_all_iff)
qed

subsection \<open>C8: the queries\<close>

lemma sent_show_urgent: "sent (snd (show_urgent w)) = sent w @ [urgent_query]"
  by (simp add: show_urgent_def run_graphql_query_def)

lemma sent_show_category:
  assumes "map_of CATEGORIES category_slug = Some cat"
  shows "sent (snd (show_category cfg category_slug w)) = sent w @ [category_query cfg (tag cat)]"
  using assms by (simp add: show_category_def run_graphql_query_def)

lemma tag_query_string_value:
  "tag_query_string =
     ''tag:'' @ apostrophe @ ''HJMQS'' @ apostrophe @ '' OR tag:'' @ apostrophe @ ''HJMQ2B''
     @ apostrophe @ '' OR tag:'' @ apostrophe @ ''HJMQ7B'' @ apostrophe @ '' OR tag:''
     @ apostrophe @ ''HJMQQ'' @ apostrophe"
  by (simp add: tag_query_string_def all_tags_def CATEGORIES_def)

lemma urgent_query_prefix:
  "prefix ([CHR 0x0A] @ ''    {'' @ [CHR 0x0A] @ ''      products(first: 250, query: \"(''
      @ tag_query_string @ '')\") {'') urgent_query"
  by (simp add: urgent_query_def)

lemma category_query_prefix:
  "prefix ([CHR 0x0A] @ ''    {'' @ [CHR 0x0A] @ ''      products(first: 250, query: \"tag:''
      @ apostrophe @ t @ apostrophe @ ''\") {'') (category_query cfg t)"
  by (simp add: category_query_def)

lemma urgent_query_no_metafield: "\<not> sublist ''metafield'' urgent_query"
  unfolding urgent_query_def tag_query_string_def all_tags_def CATEGORIES_def apostrophe_def
  by code_simp

lemma category_query_metafield:
  "sublist (''metafield(namespace: \"'' @ METAFIELD_NAMESPACE cfg @ ''\", key: \"''
      @ METAFIELD_KEY cfg @ ''\") {'') (category_query cfg t)"
proof -
  let ?m = "''metafield(namespace: \"'' @ METAFIELD_NAMESPACE cfg @ ''\", key: \"''
      @ METAFIELD_KEY cfg @ ''\") {''"
  let ?before = "join [CHR 0x0A]
     ['''',
      ''    {'',
      ''      products(first: 250, query: \"tag:'' @ apostrophe @ t @ apostrophe @ ''\") {'',
      ''        edges {'',
      ''          node {'',
      ''            id'',
      ''            title'',
      ''            featuredImage { url }'',
      ''            variants(first: 1) {'',
      ''              edges { node { inventoryQuantity } }'',
      ''            }''] @ [CHR 0x0A] @ ''            ''"
  let ?after = "[CHR 0x0A] @ join [CHR 0x0A]
     [''              value'',
      ''            }'',
      ''          }'',
      ''        }'',
      ''      }'',
      ''    }'',
      ''    '']"
  have "category_query cfg t = ?before @ ?m @ ?after"
    by (simp add: category_query_def)
  then show ?thesis
    unfolding sublist_def by blast
qed
text \<open>
  C8. Each view sends one query. The query of the global view asks for
  \<^verbatim>\<open>products(first: 250, ...)\<close> over the tags of all categories joined by \<^verbatim>\<open>OR\<close>, and
  the word \<^verbatim>\<open>metafield\<close> does not occur in it. The query of a category view asks for
  \<^verbatim>\<open>products(first: 250, ...)\<close> over the category's tag and, besides, for the metafield of
  the configured namespace and key.
\<close>

theorem queries_ask_for_250_products:
  "sent (snd (show_urgent w)) = sent w @ [urgent_query]
   \<and> prefix ([CHR 0x0A] @ ''    {'' @ [CHR 0x0A] @ ''      products(first: 250, query: \"(''
        @ tag_query_string @ '')\") {'') urgent_query
   \<and> tag_query_string =
        ''tag:'' @ apostrophe @ ''HJMQS'' @ apostrophe @ '' OR tag:'' @ apostrophe @ ''HJMQ2B''
        @ apostrophe @ '' OR tag:'' @ apostrophe @ ''HJMQ7B'' @ apostrophe @ '' OR tag:''
        @ apostrophe @ ''HJMQQ'' @ apostrophe
   \<and> \<not> sublist ''metafield'' urgent_query
   \<and> (map_of CATEGORIES category_slug = Some cat \<longrightarrow>
        sent (snd (show_category cfg category_slug w)) = sent w @ [category_query cfg (tag cat)]
        \<and> prefix ([CHR 0x0A] @ ''    {'' @ [CHR 0x0A]
             @ ''      products(first: 250, query: \"tag:'' @ apostrophe @ tag cat @ apostrophe
             @ ''\") {'') (category_query cfg (tag cat))
        \<and> sublist (''metafield(namespace: \"'' @ METAFIELD_NAMESPACE cfg @ ''\", key: \"''
             @ METAFIELD_KEY cfg @ ''\") {'') (category_query cfg (tag cat)))"
proof (intro conjI impI)
  show "sent (snd (show_urgent w)) = sent w @ [urgent_query]"
    by (rule sent_show_urgent)
  show "prefix ([CHR 0x0A] @ ''    {'' @ [CHR 0x0A] @ ''      products(first: 250, query: \"(''
        @ tag_query_string @ '')\") {'') urgent_query"
    by (rule urgent_query_prefix)
  show "tag_query_string =
        ''tag:'' @ apostrophe @ ''HJMQS'' @ apostrophe @ '' OR tag:'' @ apostrophe @ ''HJMQ2B''
        @ apostrophe @ '' OR tag:'' @ apostrophe @ ''HJMQ7B'' @ apostrophe @ '' OR tag:''
        @ apostrophe @ ''HJMQQ'' @ apostrophe"
    by (rule tag_query_string_value)
  show "\<not> sublist ''metafield'' urgent_query"
    by (rule urgent_query_no_metafield)
next
  assume "map_of CATEGORIES category_slug = Some cat"
  then show "sent (snd (show_category cfg category_slug w)) =
      sent w @ [category_query cfg (tag cat)]"
    by (rule sent_show_category)
next
  show "prefix ([CHR 0x0A] @ ''    {'' @ [CHR 0x0A]
             @ ''      products(first: 250, query: \"tag:'' @ apostrophe @ tag cat @ apostrophe
             @ ''\") {'') (category_query cfg (tag cat))"
    by (rule category_query_prefix)
next
  show "sublist (''metafield(namespace: \"'' @ METAFIELD_NAMESPACE cfg @ ''\", key: \"''
             @ METAFIELD_KEY cfg @ ''\") {'') (category_query cfg (tag cat))"
    by (rule category_query_metafield)
qed

theorem queries_ask_for_250_products_example:
  "sent (snd (show_category example_config ''quilt'' unreachable)) =
     [category_query example_config ''HJMQQ'']
   \<and> prefix ([CHR 0x0A] @ ''    {'' @ [CHR 0x0A]
        @ ''      products(first: 250, query: \"tag:'' @ apostrophe @ ''HJMQQ'' @ apostrophe
        @ ''\") {'') (category_query example_config ''HJMQQ'')
   \<and> sublist ''metafield(namespace: \"custom\", key: \"threshold\") {''
        (category_query example_config ''HJMQQ'')
   \<and> sent (snd (show_urgent unreachable)) = [urgent_query]
   \<and> \<not> sublist ''metafield'' urgent_query"
proof -
  let ?cat = "\<lparr>tag = ''HJMQQ'', title = ''Quilt''\<rparr>"
  have c: "map_of CATEGORIES ''quilt'' = Some ?cat"
    by (simp add: CATEGORIES_def)
  from queries_ask_for_250_products [of unreachable "''quilt''" ?cat example_config] c
  show ?thesis
    by (simp add: unreachable_def example_config_def)
qed

subsection \<open>C9: products without a variant in the global view\<close>

lemma urgent_edge_no_variant:
  assumes "getitem edge ''node'' = Inr node" and "variant_edges node = Inr es" and "\<not> truthy es"
  shows "urgent_edge edge = Inr None"
  using assms by (simp add: urgent_edge_def)

lemma global_alert_no_variant:
  assumes "raw_quantities p = []"
  shows "global_alert p \<notin> set (map global_alert (filter (\<lambda>p. currentQuantity p < 0) ps))"
proof
  assume "global_alert p \<in> set (map global_alert (filter (\<lambda>p. currentQuantity p < 0) ps))"
  then obtain q where "currentQuantity q < 0" and "global_alert p = global_alert q"
    by auto
  with global_alert_inj [of p q] assms show False
    by simp
qed

text \<open>
  C9. Global (urgent) view: an edge whose list of variants is empty makes the loop append
  nothing - the quantity test is not reached, whatever else the edge holds. So a product
  without a variant leaves the page as it is without that product, and no record of
  current quantity 0 stands for it.
\<close>

theorem urgent_skips_products_without_variant:
  "(getitem edge ''node'' = Inr node \<longrightarrow> variant_edges node = Inr (JList []) \<longrightarrow>
      urgent_edge edge = Inr None)
   \<and> (raw_quantities p = [] \<longrightarrow>
        urgent_edge (global_edge p) = Inr None
        \<and> urgent_loop (map global_edge (ps @ p # qs)) acc =
            urgent_loop (map global_edge (ps @ qs)) acc
        \<and> (catalog w urgent_query = Body (response (map global_edge (ps @ p # qs))) \<longrightarrow>
            (\<exists>pg. fst (show_urgent w) = Inr pg
               \<and> products pg = sorted_reverse urgent_product.needed_qty
                    (map global_alert (filter (\<lambda>p. currentQuantity p < 0) (ps @ qs)))
               \<and> global_alert p \<notin> set (products pg))))"
proof (intro conjI impI)
  assume "getitem edge ''node'' = Inr node" and "variant_edges node = Inr (JList [])"
  then show "urgent_edge edge = Inr None"
    by (rule urgent_edge_no_variant) simp
next
  assume "raw_quantities p = []"
  then show "urgent_edge (global_edge p) = Inr None"
    by (simp add: urgent_edge_global)
next
  assume "raw_quantities p = []"
  then show "urgent_loop (map global_edge (ps @ p # qs)) acc =
      urgent_loop (map global_edge (ps @ qs)) acc"
    by (simp only: urgent_loop_global) simp
next
  assume e: "raw_quantities p = []"
    and "catalog w urgent_query = Body (response (map global_edge (ps @ p # qs)))"
  from show_urgent_response [OF this(2)] e
  have "fst (show_urgent w) =
     Inr \<lparr>template = ''urgent_page.html'',
          products = sorted_reverse urgent_product.needed_qty
            (map global_alert (filter (\<lambda>p. currentQuantity p < 0) (ps @ qs))),
          page_title = ''Urgent''\<rparr>"
    by simp
  moreover have "global_alert p \<notin> set (sorted_reverse urgent_product.needed_qty
            (map global_alert (filter (\<lambda>p. currentQuantity p < 0) (ps @ qs))))"
    using global_alert_no_variant [OF e, of "ps @ qs"] by simp
  ultimately show "\<exists>pg. fst (show_urgent w) = Inr pg
               \<and> products pg = sorted_reverse urgent_product.needed_qty
                    (map global_alert (filter (\<lambda>p. currentQuantity p < 0) (ps @ qs)))
               \<and> global_alert p \<notin> set (products pg)"
    by simp
qed

theorem urgent_skips_products_without_variant_example:
  "urgent_edge (global_edge (unstocked ''E'')) = Inr None
   \<and> fst (show_urgent (answering (response (map global_edge
        [stocked ''A'' (- 5), unstocked ''E'', stocked ''C'' (- 12)])))) =
      Inr \<lparr>template = ''urgent_page.html'',
           products = [global_alert (stocked ''C'' (- 12)), global_alert (stocked ''A'' (- 5))],
           page_title = ''Urgent''\<rparr>
   \<and> urgent_product.current_qty (global_alert (unstocked ''E'')) = JInt 0
   \<and> list_all (\<lambda>a. a \<noteq> global_alert (unstocked ''E''))
        [global_alert (stocked ''C'' (- 12)), global_alert (stocked ''A'' (- 5))]"
proof -
  let ?ps = "[stocked ''A'' (- 5)]" and ?qs = "[stocked ''C'' (- 12)]"
  let ?w = "answering (response (map global_edge (?ps @ unstocked ''E'' # ?qs)))"
  note r = urgent_skips_products_without_variant [of _ _ "unstocked ''E''" ?ps ?qs _ ?w]
  have e: "raw_quantities (unstocked ''E'') = []"
    by (simp add: unstocked_def)
  have a: "catalog ?w urgent_query = Body (response (map global_edge (?ps @ unstocked ''E'' # ?qs)))"
    by (simp add: answering_def)
  from r e have 1: "urgent_edge (global_edge (unstocked ''E'')) = Inr None"
    by blast
  from r e a obtain pg where p: "fst (show_urgent ?w) = Inr pg"
    and q: "products pg = sorted_reverse urgent_product.needed_qty
        (map global_alert (filter (\<lambda>p. currentQuantity p < 0) (?ps @ ?qs)))"
    and n: "global_alert (unstocked ''E'') \<notin> set (products pg)"
    by blast
  have s: "sorted_reverse urgent_product.needed_qty
        (map global_alert (filter (\<lambda>p. currentQuantity p < 0) (?ps @ ?qs))) =
      [global_alert (stocked ''C'' (- 12)), global_alert (stocked ''A'' (- 5))]"
    by (simp add: sorted_reverse_def global_alert_def stocked_def currentQuantity_def)
  from show_urgent_response [OF a] p
  have t: "template pg = ''urgent_page.html''" and u: "page_title pg = ''Urgent''"
    by auto
  from q s have q': "products pg =
      [global_alert (stocked ''C'' (- 12)), global_alert (stocked ''A'' (- 5))]"
    by (rule trans)
  from t q' u have "pg = \<lparr>template = ''urgent_page.html'',
           products = [global_alert (stocked ''C'' (- 12)), global_alert (stocked ''A'' (- 5))],
           page_title = ''Urgent''\<rparr>"
    by (rule page_eqI)
  with p have 2: "fst (show_urgent ?w) = Inr \<lparr>template = ''urgent_page.html'',
           products = [global_alert (stocked ''C'' (- 12)), global_alert (stocked ''A'' (- 5))],
           page_title = ''Urgent''\<rparr>"
    by (simp only:)
  have 3: "urgent_product.current_qty (global_alert (unstocked ''E'')) = JInt 0"
    by (simp add: global_alert_def unstocked_def currentQuantity_def)
  from n have "list_all (\<lambda>a. a \<noteq> global_alert (unstocked ''E'')) (products pg)"
    unfolding list_all_iff by blast
  with q' have 4: "list_all (\<lambda>a. a \<noteq> global_alert (unstocked ''E''))
      [global_alert (stocked ''C'' (- 12)), global_alert (stocked ''A'' (- 5))]"
    by (simp only:)
  from 1 2 3 4 show ?thesis
    by simp
qed

subsection \<open>C10: thresholds that are no integers\<close>

lemma unparsable_threshold:
  assumes "raw_threshold p = Some v" and "int_of_string (int_max_str_digits cfg) v = None"
  shows "parsed_threshold cfg p = None"
  using assms by (simp add: parsed_threshold_def)

text \<open>
  C10. Category view: when the threshold annotation of some product of the response is
  present and its value is no integer string, the normalizer raises \<^verbatim>\<open>ValueError\<close>, and
  the fault leaves the view: no page is rendered, neither with the threshold taken as 0
  nor with an empty list.
\<close>

theorem unparsable_threshold_raises:
  assumes "map_of CATEGORIES category_slug = Some cat"
    and "catalog w (category_query cfg (tag cat)) = Body (response (map category_edge ps))"
    and "p \<in> set ps" and "raw_threshold p = Some v" and "int_of_string (int_max_str_digits cfg) v = None"
  shows "process_product_edges cfg (JList (map category_edge ps)) = Inl ValueError
    \<and> fst (show_category cfg category_slug w) = Inl ValueError"
proof -
  from assms(3) unparsable_threshold [OF assms(4,5)]
  have bad: "\<exists>p\<in>set ps. parsed_threshold cfg p = None"
    by blast
  then have "process_product_edges cfg (JList (map category_edge ps)) = Inl ValueError"
    by (simp add: process_product_edges_list process_loop_unparsable)
  moreover have "fst (show_category cfg category_slug w) = Inl ValueError"
    using assms(2) by (simp add: show_category_page [OF assms(1)] category_page_unparsable [OF bad])
  ultimately show ?thesis
    by simp
qed

theorem unparsable_threshold_raises_example:
  "int_of_string (int_max_str_digits example_config) ''ten'' = None
   \<and> process_product_edges example_config (JList (map category_edge
        [with_threshold ''10'' (stocked ''X'' 4), with_threshold ''ten'' (stocked ''Y'' 1)])) =
      Inl ValueError
   \<and> fst (show_category example_config ''simple'' (answering (response (map category_edge
        [with_threshold ''10'' (stocked ''X'' 4), with_threshold ''ten'' (stocked ''Y'' 1)])))) =
      Inl ValueError"
proof -
  let ?ps = "[with_threshold ''10'' (stocked ''X'' 4), with_threshold ''ten'' (stocked ''Y'' 1)]"
  let ?cat = "\<lparr>tag = ''HJMQS'', title = ''Simple''\<rparr>"
  have a: "catalog (answering (response (map category_edge ?ps)))
      (category_query example_config (tag ?cat)) = Body (response (map category_edge ?ps))"
    by (simp add: answering_def)
  have m: "with_threshold ''ten'' (stocked ''Y'' 1) \<in> set ?ps"
    by simp
  have v: "raw_threshold (with_threshold ''ten'' (stocked ''Y'' 1)) = Some ''ten''"
    by (simp add: with_threshold_def)
  from unparsable_threshold_raises [OF simple_category a m v int_of_string_abc] int_of_string_abc
  show ?thesis
    by simp
qed

end
